theory Spec2Isabelle
  imports Main "HOL-Library.Word" "HOL-Library.Multiset"
begin

section \<open>Data model (types/index.ts)\<close>

text \<open>
  A JavaScript string is a sequence of UTF-16 code units, and \<open>length\<close> counts code
  units. Identifiers, addresses and messages are opaque and kept as HOL strings.
  A \<open>Date\<close> is its \<open>getTime()\<close> value: milliseconds since the epoch.
\<close>

type_synonym jsstring = "16 word list"

text \<open>The code units of an ASCII text.\<close>

definition jsString :: "string \<Rightarrow> jsstring" where
  "jsString s = map (\<lambda>c. of_nat (of_char c)) s"

datatype MoodType = happy | sad | calm | anxious | excited | tired | grateful | angry

text \<open>
  The interface \<open>JournalEntry\<close>. The field \<open>id\<close> is written \<open>id'\<close> (\<open>id\<close> is the
  identity function of HOL). The last two fields are not part of the interface: the mint
  flow of the application context spreads them into the in-memory entry object.
\<close>

record JournalEntry =
  id' :: string
  userId :: string
  content :: jsstring
  mood :: MoodType
  createdAt :: int
  updatedAt :: int
  isMinted :: bool
  nftAddress :: "string option"
  clarityPoints :: int
  isSync :: bool
  nftTransactionSignature :: "string option"
  nftMetadataUri :: "string option"

record ClarityPointsBreakdown =
  dailyEntry :: int
  streakBonus :: int
  moodTracking :: int
  nftMinting :: int
  total :: int

section \<open>Ledger functions (utils/index.ts)\<close>

subsection \<open>The constant table \<open>CLARITY_POINTS\<close>\<close>

definition DAILY_ENTRY :: int where "DAILY_ENTRY = 10"
definition MOOD_TRACKING :: int where "MOOD_TRACKING = 5"
definition NFT_MINTING :: int where "NFT_MINTING = 20"
definition STREAK_3_DAYS :: int where "STREAK_3_DAYS = 15"
definition STREAK_7_DAYS :: int where "STREAK_7_DAYS = 50"
definition STREAK_30_DAYS :: int where "STREAK_30_DAYS = 200"

subsection \<open>\<open>calculateClarityPoints\<close>\<close>

definition calculateClarityPoints ::
  "JournalEntry \<Rightarrow> int \<Rightarrow> bool \<Rightarrow> ClarityPointsBreakdown" where
  "calculateClarityPoints entry currentStreak isMoodTracked =
     (let dailyEntry = DAILY_ENTRY;
          moodTracking = (if isMoodTracked then MOOD_TRACKING else 0);
          nftMinting = (if isMinted entry then NFT_MINTING else 0);
          streakBonus =
            (if currentStreak \<ge> 30 then STREAK_30_DAYS
             else if currentStreak \<ge> 7 then STREAK_7_DAYS
             else if currentStreak \<ge> 3 then STREAK_3_DAYS
             else 0);
          total = dailyEntry + moodTracking + nftMinting + streakBonus
      in \<lparr> dailyEntry = dailyEntry, streakBonus = streakBonus,
           moodTracking = moodTracking, nftMinting = nftMinting, total = total \<rparr>)"

subsection \<open>\<open>calculateStreak\<close>\<close>

text \<open>
  The local time zone is a parameter: \<open>localTZA t isUTC\<close> is the offset of local time
  from UTC, in milliseconds, in force at the instant \<open>t\<close>, which is a UTC time when
  \<open>isUTC\<close> is true and a local time otherwise (the \<open>LocalTZA\<close> of ECMAScript). The
  offset may change from one instant to another, as it does where daylight-saving time
  is observed.
\<close>

type_synonym TimeZone = "int \<Rightarrow> bool \<Rightarrow> int"

definition MS_PER_DAY :: int where "MS_PER_DAY = 1000 * 60 * 60 * 24"

text \<open>
  \<open>setHours(0, 0, 0, 0)\<close> moves a date to the local midnight that starts its day: the
  time value is taken to local time, cut down to the start of the day, and taken back to
  UTC with the offset in force at that local midnight.
\<close>

definition setHours0 :: "TimeZone \<Rightarrow> int \<Rightarrow> int" where
  "setHours0 localTZA t =
     (let local = t + localTZA t True;
          date = local div MS_PER_DAY * MS_PER_DAY
      in date - localTZA date False)"

text \<open>
  \<open>entries.sort((a, b) => b.createdAt.getTime() - a.createdAt.getTime())\<close>: a stable
  sort, newest first.
\<close>

definition sortNewestFirst :: "JournalEntry list \<Rightarrow> JournalEntry list" where
  "sortNewestFirst entries = sort_key (\<lambda>e. - createdAt e) entries"

text \<open>The \<open>for\<close> loop of \<open>calculateStreak\<close>, from index \<open>i\<close> on, with the running streak.\<close>

fun streakLoop :: "TimeZone \<Rightarrow> int \<Rightarrow> JournalEntry list \<Rightarrow> int \<Rightarrow> int" where
  "streakLoop localTZA currentDate [] streak = streak"
| "streakLoop localTZA currentDate (e # rest) streak =
     (let entryDate = setHours0 localTZA (createdAt e);
          daysDiff = (currentDate - entryDate) div MS_PER_DAY
      in if daysDiff = streak then streakLoop localTZA currentDate rest (streak + 1)
         else if daysDiff > streak then streak
         else streakLoop localTZA currentDate rest streak)"

text \<open>
  \<open>calculateStreak(entries, user)\<close>; \<open>now\<close> is the value of \<open>new Date()\<close>. The
  argument \<open>user\<close> is not read by the function.
\<close>

definition calculateStreak :: "JournalEntry list \<Rightarrow> 'u \<Rightarrow> TimeZone \<Rightarrow> int \<Rightarrow> int" where
  "calculateStreak entries user localTZA now =
     (if length entries = 0 then 0
      else let sortedEntries = sortNewestFirst entries;
               currentDate = setHours0 localTZA now
           in streakLoop localTZA currentDate sortedEntries 0)"

text \<open>
  Notions that state the properties; the code does not use them. A zone whose offset
  from UTC is always \<open>c\<close>. A zone has the offset \<open>c\<close> at a date when local time is
  UTC + \<open>c\<close> at that instant and at the local midnight that starts its day. With the
  offset \<open>c\<close>: the calendar day of a time stamp, and how many calendar days before today
  an entry was created.
\<close>

definition fixedOffset :: "int \<Rightarrow> TimeZone" where
  "fixedOffset c = (\<lambda>t isUTC. c)"




subsection \<open>\<open>validateJournalEntry\<close>\<close>

text \<open>
  \<open>String.prototype.trim\<close> removes the leading and trailing white space and line
  terminators of ECMAScript.
\<close>

definition isWhiteSpace :: "16 word \<Rightarrow> bool" where
  "isWhiteSpace c \<longleftrightarrow>
     c \<in> {0x0009, 0x000A, 0x000B, 0x000C, 0x000D, 0x0020, 0x00A0, 0x1680,
          0x2028, 0x2029, 0x202F, 0x205F, 0x3000, 0xFEFF}
     \<or> (0x2000 \<le> c \<and> c \<le> 0x200A)"

definition trim :: "jsstring \<Rightarrow> jsstring" where
  "trim s = rev (dropWhile isWhiteSpace (rev (dropWhile isWhiteSpace s)))"

record ValidationResult =
  isValid :: bool
  errors :: "string list"

definition validateJournalEntry :: "jsstring \<Rightarrow> ValidationResult" where
  "validateJournalEntry c =
     (let errors0 = [];
          errors1 = (if c = [] \<or> length (trim c) = 0
                     then errors0 @ [''Journal entry cannot be empty''] else errors0);
          errors2 = (if length (trim c) < 10
                     then errors1 @ [''Journal entry should be at least 10 characters long'']
                     else errors1);
          errors3 = (if length c > 5000
                     then errors2 @ [''Journal entry cannot exceed 5000 characters'']
                     else errors2)
      in \<lparr> isValid = (length errors3 = 0), errors = errors3 \<rparr>)"

section \<open>Errors and the environment\<close>

text \<open>
  \<open>new Error(message)\<close>. Inside a template literal an error prints as
  \<open>Error: message\<close>.
\<close>

datatype error = Error string

fun errorToString :: "error \<Rightarrow> string" where
  "errorToString (Error m) = ''Error: '' @ m"

section \<open>The journal table and its statements\<close>

text \<open>
  A row of \<open>journal_entries\<close> (\<open>DBJournalEntry\<close>). The two flag columns are
  \<open>INTEGER\<close> in SQLite and \<open>BOOLEAN\<close> in PostgreSQL: their type is the parameter
  \<open>'b\<close>. The columns \<open>id\<close>, \<open>content\<close> and \<open>mood\<close> carry the suffix \<open>_db\<close>.
  Time stamps are milliseconds, whatever the column stores (ISO text or \<open>TIMESTAMP\<close>).
\<close>

record 'b DBJournalEntry =
  id_db :: string
  user_id :: string
  content_db :: jsstring
  mood_db :: MoodType
  created_at :: int
  updated_at :: int
  is_minted :: 'b
  nft_address :: "string option"
  clarity_points :: int
  is_sync :: 'b

text \<open>
  One \<open>column = ?\<close> of a \<open>SET\<close> clause with the value bound to it, and the two
  statements the services issue on the table. An inserted row carries a freshly
  generated identifier, taken as unused: the primary key never rejects it.
\<close>

datatype 'b assignment =
    Set_updated_at int
  | Set_content jsstring
  | Set_mood MoodType
  | Set_is_minted 'b
  | Set_nft_address string
  | Set_clarity_points int
  | Set_is_sync 'b

datatype 'b statement =
    INSERT "'b DBJournalEntry"
  | UPDATE "'b assignment list" string

fun assign :: "'b assignment \<Rightarrow> 'b DBJournalEntry \<Rightarrow> 'b DBJournalEntry" where
  "assign (Set_updated_at v) r = r\<lparr>updated_at := v\<rparr>"
| "assign (Set_content v) r = r\<lparr>content_db := v\<rparr>"
| "assign (Set_mood v) r = r\<lparr>mood_db := v\<rparr>"
| "assign (Set_is_minted v) r = r\<lparr>is_minted := v\<rparr>"
| "assign (Set_nft_address v) r = r\<lparr>nft_address := Some v\<rparr>"
| "assign (Set_clarity_points v) r = r\<lparr>clarity_points := v\<rparr>"
| "assign (Set_is_sync v) r = r\<lparr>is_sync := v\<rparr>"

fun execute :: "'b statement \<Rightarrow> 'b DBJournalEntry list \<Rightarrow> 'b DBJournalEntry list" where
  "execute (INSERT r) rs = rs @ [r]"
| "execute (UPDATE sets k) rs =
     map (\<lambda>r. if id_db r = k then fold assign sets r else r) rs"

text \<open>
  An open database: the rows of the table, and how many statements it has been given.
\<close>

record 'b Connection =
  rows :: "'b DBJournalEntry list"
  queries :: nat

text \<open>
  What the code does not decide is a parameter: the clock, the generated identifiers,
  whether the \<open>n\<close>-th statement given to a database fails (and with which error), and
  the outcome of the \<open>n\<close>-th request to the Solana cluster.
\<close>

record Env =
  clock :: int
  genId :: "nat \<Rightarrow> string"
  sqliteFails :: "nat \<Rightarrow> error option"
  pgFails :: "nat \<Rightarrow> error option"
  rpcFails :: "nat \<Rightarrow> bool"
  freshKey :: "nat \<Rightarrow> string"
  freshSig :: "nat \<Rightarrow> string"
  mockUri :: "nat \<Rightarrow> string"

text \<open>
  \<open>runAsync\<close> / \<open>client.query\<close>: the statement fails and changes nothing, or it is
  executed.
\<close>

definition runStatement ::
  "(nat \<Rightarrow> error option) \<Rightarrow> 'b statement \<Rightarrow> 'b Connection \<Rightarrow> (error + unit) \<times> 'b Connection" where
  "runStatement fails st conn =
     (let n = queries conn in
      case fails n of
        Some err \<Rightarrow> (Inl err, conn\<lparr>queries := n + 1\<rparr>)
      | None \<Rightarrow> (Inr (), \<lparr> rows = execute st (rows conn), queries = n + 1 \<rparr>))"

text \<open>
  \<open>Partial<JournalEntry>\<close>: \<open>None\<close> is a property that is absent (or \<open>undefined\<close>).
  The fields carry the suffix \<open>_upd\<close>.
\<close>

record JournalEntryUpdates =
  id_upd :: "string option"
  userId_upd :: "string option"
  content_upd :: "jsstring option"
  mood_upd :: "MoodType option"
  createdAt_upd :: "int option"
  updatedAt_upd :: "int option"
  isMinted_upd :: "bool option"
  nftAddress_upd :: "string option"
  clarityPoints_upd :: "int option"
  isSync_upd :: "bool option"
  nftTransactionSignature_upd :: "string option"
  nftMetadataUri_upd :: "string option"

definition noUpdates :: JournalEntryUpdates where
  "noUpdates = \<lparr> id_upd = None, userId_upd = None, content_upd = None, mood_upd = None,
     createdAt_upd = None, updatedAt_upd = None, isMinted_upd = None, nftAddress_upd = None,
     clarityPoints_upd = None, isSync_upd = None, nftTransactionSignature_upd = None,
     nftMetadataUri_upd = None \<rparr>"

section \<open>DatabaseService (services/database/index.ts)\<close>

text \<open>The field \<open>db\<close> is \<open>null\<close> until \<open>init\<close> has opened the database.\<close>

record DatabaseService =
  db :: "int Connection option"

text \<open>
  \<open>updateJournalEntry(id, updates)\<close>: first the arrays \<open>setClause\<close> and \<open>values\<close>
  it builds, as one list, then the statement. The values \<open>'1'\<close>, \<open>'0'\<close> and
  \<open>clarityPoints.toString()\<close> are bound to \<open>INTEGER\<close> columns, which store them as
  integers. The result is what the promise settles to and the service afterwards.
\<close>

definition sqliteSetClause :: "Env \<Rightarrow> JournalEntryUpdates \<Rightarrow> int assignment list" where
  "sqliteSetClause env updates =
     (let setClause0 = [Set_updated_at (clock env)];
          setClause1 = (case content_upd updates of
                          Some v \<Rightarrow> setClause0 @ [Set_content v] | None \<Rightarrow> setClause0);
          setClause2 = (case mood_upd updates of
                          Some v \<Rightarrow> setClause1 @ [Set_mood v] | None \<Rightarrow> setClause1);
          setClause3 = (case isMinted_upd updates of
                          Some v \<Rightarrow> setClause2 @ [Set_is_minted (if v then 1 else 0)]
                        | None \<Rightarrow> setClause2);
          setClause4 = (case nftAddress_upd updates of
                          Some v \<Rightarrow> setClause3 @ [Set_nft_address v] | None \<Rightarrow> setClause3);
          setClause5 = (case clarityPoints_upd updates of
                          Some v \<Rightarrow> setClause4 @ [Set_clarity_points v] | None \<Rightarrow> setClause4);
          setClause6 = (case isSync_upd updates of
                          Some v \<Rightarrow> setClause5 @ [Set_is_sync (if v then 1 else 0)]
                        | None \<Rightarrow> setClause5)
      in setClause6)"

definition updateJournalEntry ::
  "Env \<Rightarrow> DatabaseService \<Rightarrow> string \<Rightarrow> JournalEntryUpdates
   \<Rightarrow> (error + unit) \<times> DatabaseService" where
  "updateJournalEntry env svc i updates =
     (case db svc of
        None \<Rightarrow> (Inl (Error ''Database not initialized''), svc)
      | Some conn \<Rightarrow>
          (case runStatement (sqliteFails env) (UPDATE (sqliteSetClause env updates) i) conn of
             (r, conn') \<Rightarrow> (r, svc\<lparr>db := Some conn'\<rparr>)))"

text \<open>\<open>dbEntryToEntry\<close>: a row read back as a \<open>JournalEntry\<close>.\<close>

definition dbEntryToEntry :: "int DBJournalEntry \<Rightarrow> JournalEntry" where
  "dbEntryToEntry dbEntry =
     \<lparr> id' = id_db dbEntry, userId = user_id dbEntry, content = content_db dbEntry,
       mood = mood_db dbEntry, createdAt = created_at dbEntry,
       updatedAt = updated_at dbEntry, isMinted = (is_minted dbEntry = 1),
       nftAddress = (case nft_address dbEntry of
                       None \<Rightarrow> None | Some a \<Rightarrow> if a = [] then None else Some a),
       clarityPoints = clarity_points dbEntry, isSync = (is_sync dbEntry = 1),
       nftTransactionSignature = None, nftMetadataUri = None \<rparr>"

section \<open>PostgreSQLService (services/database/postgresql.ts)\<close>

text \<open>
  \<open>reactNative\<close> is what \<open>isReactNative()\<close> returns; \<open>pool\<close> is \<open>null\<close> until
  \<open>init\<close> has connected.
\<close>

record PostgreSQLService =
  reactNative :: bool
  pool :: "bool Connection option"

text \<open>
  \<open>createJournalEntry(entryData)\<close>, as \<open>syncToCloud\<close> calls it: \<open>entryData\<close> is a
  whole entry, so its \<open>id\<close>, \<open>createdAt\<close> and \<open>updatedAt\<close> override the fresh ones
  in the object returned, while the row inserted has the fresh identifier and time.
\<close>

definition pg_createJournalEntry ::
  "Env \<Rightarrow> PostgreSQLService \<Rightarrow> JournalEntry
   \<Rightarrow> (error + JournalEntry) \<times> PostgreSQLService" where
  "pg_createJournalEntry env svc entryData =
     (if reactNative svc
      then (Inl (Error ''PostgreSQL operations not available in React Native''), svc)
      else case pool svc of
        None \<Rightarrow> (Inl (Error ''Database not initialized''), svc)
      | Some conn \<Rightarrow>
          (let i = genId env (queries conn);
               now = clock env;
               entry = entryData;
               row = \<lparr> id_db = i, user_id = userId entryData, content_db = content entryData,
                       mood_db = mood entryData, created_at = now, updated_at = now,
                       is_minted = isMinted entryData,
                       nft_address = (case nftAddress entryData of
                                        None \<Rightarrow> None
                                      | Some a \<Rightarrow> if a = [] then None else Some a),
                       clarity_points = clarityPoints entryData, is_sync = isSync entryData \<rparr>
           in case runStatement (pgFails env) (INSERT row) conn of
                (Inl err, conn') \<Rightarrow> (Inl err, svc\<lparr>pool := Some conn'\<rparr>)
              | (Inr u, conn') \<Rightarrow> (Inr entry, svc\<lparr>pool := Some conn'\<rparr>)))"

definition pgSetClause :: "Env \<Rightarrow> JournalEntryUpdates \<Rightarrow> bool assignment list" where
  "pgSetClause env updates =
     (let setClause0 = [];
          setClause1 = (case content_upd updates of
                          Some v \<Rightarrow> setClause0 @ [Set_content v] | None \<Rightarrow> setClause0);
          setClause2 = (case mood_upd updates of
                          Some v \<Rightarrow> setClause1 @ [Set_mood v] | None \<Rightarrow> setClause1);
          setClause3 = (case isMinted_upd updates of
                          Some v \<Rightarrow> setClause2 @ [Set_is_minted v] | None \<Rightarrow> setClause2);
          setClause4 = (case nftAddress_upd updates of
                          Some v \<Rightarrow> setClause3 @ [Set_nft_address v] | None \<Rightarrow> setClause3);
          setClause5 = (case clarityPoints_upd updates of
                          Some v \<Rightarrow> setClause4 @ [Set_clarity_points v] | None \<Rightarrow> setClause4);
          setClause6 = (case isSync_upd updates of
                          Some v \<Rightarrow> setClause5 @ [Set_is_sync v] | None \<Rightarrow> setClause5);
          setClause7 = setClause6 @ [Set_updated_at (clock env)]
      in setClause7)"

definition pg_updateJournalEntry ::
  "Env \<Rightarrow> PostgreSQLService \<Rightarrow> string \<Rightarrow> JournalEntryUpdates
   \<Rightarrow> (error + unit) \<times> PostgreSQLService" where
  "pg_updateJournalEntry env svc i updates =
     (if reactNative svc
      then (Inl (Error ''PostgreSQL operations not available in React Native''), svc)
      else case pool svc of
        None \<Rightarrow> (Inl (Error ''Database not initialized''), svc)
      | Some conn \<Rightarrow>
          (let setClause = pgSetClause env updates
           in if length setClause \<le> 1 then (Inr (), svc)
              else case runStatement (pgFails env) (UPDATE setClause i) conn of
                     (r, conn') \<Rightarrow> (r, svc\<lparr>pool := Some conn'\<rparr>)))"

section \<open>Configuration (config)\<close>

text \<open>The flags and the constant of \<open>CONFIG\<close> that the application context reads.\<close>

record Config =
  SQLITE_ENABLED :: bool
  POSTGRESQL_ENABLED :: bool
  SOLANA_ENABLED :: bool
  NFT_ENABLED :: bool
  CONFIG_NFT_MINTING :: int

definition CONFIG :: Config where
  "CONFIG = \<lparr> SQLITE_ENABLED = True, POSTGRESQL_ENABLED = False, SOLANA_ENABLED = True,
     NFT_ENABLED = True, CONFIG_NFT_MINTING = 20 \<rparr>"

section \<open>Wallet service and Solana service (services/database/index.ts, services/solana/index.ts)\<close>

text \<open>A key pair is identified by its public key, a public key by its base-58 text.\<close>

record WalletAdapter =
  publicKey :: "string option"
  connected :: bool

record WalletService =
  currentWallet :: "WalletAdapter option"
  connectedKeypair :: "string option"

definition isConnected :: "WalletService \<Rightarrow> bool" where
  "isConnected ws \<longleftrightarrow>
     (case currentWallet ws of None \<Rightarrow> False | Some wallet \<Rightarrow> connected wallet)
     \<and> connectedKeypair ws \<noteq> None"

text \<open>
  The cluster: how many requests it has received, the mint accounts and token accounts
  created, and the tokens minted (mint, destination account).
\<close>

record Chain =
  rpcCalls :: nat
  mintAccounts :: "string list"
  tokenAccounts :: "(string \<times> string) list"
  tokens :: "(string \<times> string) list"

record SimpleNFT =
  mint :: string
  tokenAccount :: string
  signature :: string

record NFTMintResult =
  nftAddress_res :: string
  transactionSignature :: string
  metadataUri :: string

text \<open>
  \<open>createSimpleNFT(walletKeypair)\<close>: \<open>createMint\<close>, \<open>createAccount\<close> and \<open>mintTo\<close>,
  each one request; any failure is rethrown as \<open>Failed to create NFT\<close>.
\<close>

definition createSimpleNFT :: "Env \<Rightarrow> Chain \<Rightarrow> string \<Rightarrow> (error + SimpleNFT) \<times> Chain" where
  "createSimpleNFT env c walletKeypair =
     (let n = rpcCalls c in
      if rpcFails env n
      then (Inl (Error ''Failed to create NFT''), c\<lparr>rpcCalls := n + 1\<rparr>)
      else
        let mint = freshKey env n;
            c1 = c\<lparr>rpcCalls := n + 1, mintAccounts := mintAccounts c @ [mint]\<rparr>
        in if rpcFails env (n + 1)
           then (Inl (Error ''Failed to create NFT''), c1\<lparr>rpcCalls := n + 2\<rparr>)
           else
             let tokenAccount = freshKey env (n + 1);
                 c2 = c1\<lparr>rpcCalls := n + 2,
                         tokenAccounts := tokenAccounts c1 @ [(tokenAccount, mint)]\<rparr>
             in if rpcFails env (n + 2)
                then (Inl (Error ''Failed to create NFT''), c2\<lparr>rpcCalls := n + 3\<rparr>)
                else
                  let signature = freshSig env (n + 2);
                      c3 = c2\<lparr>rpcCalls := n + 3, tokens := tokens c2 @ [(mint, tokenAccount)]\<rparr>
                  in (Inr \<lparr> mint = mint, tokenAccount = tokenAccount,
                             signature = signature \<rparr>, c3))"

text \<open>\<open>getWalletKeypair()\<close> reads the key pair out of the wallet service.\<close>

definition getWalletKeypair :: "WalletService \<Rightarrow> error + string" where
  "getWalletKeypair ws =
     (case currentWallet ws of
        None \<Rightarrow> Inl (Error ''Wallet not connected'')
      | Some walletAdapter \<Rightarrow>
          (case connectedKeypair ws of
             None \<Rightarrow> Inl (Error ''Wallet keypair not available'')
           | Some kp \<Rightarrow> Inr kp))"

text \<open>
  \<open>mintJournalEntryAsNFT(entry)\<close> of the Solana service. \<open>createNFTMetadata\<close> builds
  an object that \<open>uploadToIPFS\<close> only logs: the mock upload returns a generated URI and
  cannot fail. Every error raised inside the \<open>try\<close> block is rethrown as
  \<open>Failed to mint NFT: \<close> followed by the error.
\<close>

definition mintJournalEntryAsNFT ::
  "Config \<Rightarrow> Env \<Rightarrow> WalletService \<Rightarrow> Chain \<Rightarrow> JournalEntry
   \<Rightarrow> (error + NFTMintResult) \<times> Chain" where
  "mintJournalEntryAsNFT cfg env ws c entry =
     (if \<not> NFT_ENABLED cfg then (Inl (Error ''NFT minting is disabled''), c)
      else case (case currentWallet ws of None \<Rightarrow> None | Some wallet \<Rightarrow> publicKey wallet) of
        None \<Rightarrow> (Inl (Error ''Wallet not connected''), c)
      | Some pk \<Rightarrow>
          (let metadataUri = mockUri env (rpcCalls c) in
           case getWalletKeypair ws of
             Inl err \<Rightarrow> (Inl (Error (''Failed to mint NFT: '' @ errorToString err)), c)
           | Inr walletKeypair \<Rightarrow>
               (case createSimpleNFT env c walletKeypair of
                  (Inl err, c') \<Rightarrow>
                    (Inl (Error (''Failed to mint NFT: '' @ errorToString err)), c')
                | (Inr nftResult, c') \<Rightarrow>
                    (Inr \<lparr> nftAddress_res = mint nftResult,
                           transactionSignature = signature nftResult,
                           metadataUri = metadataUri \<rparr>, c'))))"

section \<open>Application state and reducer (contexts/AppContext.tsx)\<close>

datatype Theme = light | dark

record UserPreferences =
  enableNotifications :: bool
  notificationTime :: string
  theme :: Theme
  autoSync :: bool

text \<open>The interface \<open>User\<close>; \<open>id\<close> and \<open>createdAt\<close> carry the suffix \<open>_user\<close>.\<close>

record User =
  id_user :: string
  walletAddress :: "string option"
  totalClarityPoints :: int
  currentStreak :: int
  longestStreak :: int
  lastEntryDate :: "int option"
  createdAt_user :: int
  preferences :: UserPreferences

record SyncStatus =
  isOnline :: bool
  lastSyncTime :: "int option"
  pendingSync :: nat

record AppState =
  user :: "User option"
  entries :: "JournalEntry list"
  loading :: bool
  error :: "string option"
  syncStatus :: SyncStatus
  initialized :: bool
  walletConnected :: bool

text \<open>
  The actions, but \<open>UPDATE_USER\<close>, which none of the operations below dispatches.
\<close>

datatype AppAction =
    SET_USER User
  | SET_ENTRIES "JournalEntry list"
  | ADD_ENTRY JournalEntry
  | UPDATE_ENTRY string JournalEntryUpdates
  | DELETE_ENTRY string
  | SET_LOADING bool
  | SET_ERROR "string option"
  | SET_SYNC_STATUS SyncStatus
  | SET_INITIALIZED bool
  | SET_WALLET_CONNECTED bool

text \<open>\<open>{ ...entry, ...updates }\<close>: every property present in \<open>updates\<close> wins.\<close>

definition spreadUpdates :: "JournalEntry \<Rightarrow> JournalEntryUpdates \<Rightarrow> JournalEntry" where
  "spreadUpdates entry updates =
     \<lparr> id' = (case id_upd updates of Some v \<Rightarrow> v | None \<Rightarrow> id' entry),
       userId = (case userId_upd updates of Some v \<Rightarrow> v | None \<Rightarrow> userId entry),
       content = (case content_upd updates of Some v \<Rightarrow> v | None \<Rightarrow> content entry),
       mood = (case mood_upd updates of Some v \<Rightarrow> v | None \<Rightarrow> mood entry),
       createdAt = (case createdAt_upd updates of Some v \<Rightarrow> v | None \<Rightarrow> createdAt entry),
       updatedAt = (case updatedAt_upd updates of Some v \<Rightarrow> v | None \<Rightarrow> updatedAt entry),
       isMinted = (case isMinted_upd updates of Some v \<Rightarrow> v | None \<Rightarrow> isMinted entry),
       nftAddress = (case nftAddress_upd updates of Some v \<Rightarrow> Some v | None \<Rightarrow> nftAddress entry),
       clarityPoints =
         (case clarityPoints_upd updates of Some v \<Rightarrow> v | None \<Rightarrow> clarityPoints entry),
       isSync = (case isSync_upd updates of Some v \<Rightarrow> v | None \<Rightarrow> isSync entry),
       nftTransactionSignature =
         (case nftTransactionSignature_upd updates of
            Some v \<Rightarrow> Some v | None \<Rightarrow> nftTransactionSignature entry),
       nftMetadataUri =
         (case nftMetadataUri_upd updates of
            Some v \<Rightarrow> Some v | None \<Rightarrow> nftMetadataUri entry) \<rparr>"

fun appReducer :: "AppState \<Rightarrow> AppAction \<Rightarrow> AppState" where
  "appReducer st (SET_USER payload) = st\<lparr>user := Some payload\<rparr>"
| "appReducer st (SET_ENTRIES payload) = st\<lparr>entries := payload\<rparr>"
| "appReducer st (ADD_ENTRY payload) = st\<lparr>entries := payload # entries st\<rparr>"
| "appReducer st (UPDATE_ENTRY i updates) =
     st\<lparr>entries := map (\<lambda>entry. if id' entry = i then spreadUpdates entry updates else entry)
                        (entries st)\<rparr>"
| "appReducer st (DELETE_ENTRY i) = st\<lparr>entries := filter (\<lambda>entry. id' entry \<noteq> i) (entries st)\<rparr>"
| "appReducer st (SET_LOADING payload) = st\<lparr>loading := payload\<rparr>"
| "appReducer st (SET_ERROR payload) = st\<lparr>error := payload\<rparr>"
| "appReducer st (SET_SYNC_STATUS payload) = st\<lparr>syncStatus := payload\<rparr>"
| "appReducer st (SET_INITIALIZED payload) = st\<lparr>initialized := payload\<rparr>"
| "appReducer st (SET_WALLET_CONNECTED payload) = st\<lparr>walletConnected := payload\<rparr>"

text \<open>
  Everything the provider's operations read and write: the reducer state, the two
  database services, the wallet service and the cluster.
\<close>

record World =
  state :: AppState
  databaseService :: DatabaseService
  postgreSQLService :: PostgreSQLService
  walletService :: WalletService
  chain :: Chain

definition dispatch :: "AppAction \<Rightarrow> World \<Rightarrow> World" where
  "dispatch action w = w\<lparr>state := appReducer (state w) action\<rparr>"

section \<open>Operations of the provider with both stores\<close>

text \<open>
  The provider that knows the wallet service, the Solana service and PostgreSQL. An
  operation returns what its promise settles to (\<open>Inl\<close>: rejected with the error) and
  the world it leaves. The provider creates its operations anew at every render, and
  each closes over the \<open>state\<close> of that render: where an operation reads \<open>state\<close>, it
  reads the argument \<open>st\<close>, the state of the render that created the function object
  called. A dispatch changes the state of the reducer, in the world; only the operations
  of a later render see it. The services are shared objects, read as they are when the
  operation runs. \<open>console\<close> output is not modelled.
\<close>

subsection \<open>\<open>updateEntry\<close>\<close>

definition updateEntryTry ::
  "Config \<Rightarrow> Env \<Rightarrow> string \<Rightarrow> JournalEntryUpdates \<Rightarrow> World \<Rightarrow> (error + unit) \<times> World" where
  "updateEntryTry cfg env i updates w =
     (case (if POSTGRESQL_ENABLED cfg
            then pg_updateJournalEntry env (postgreSQLService w) i updates
            else (Inr (), postgreSQLService w)) of
        (Inl err, pg') \<Rightarrow> (Inl err, w\<lparr>postgreSQLService := pg'\<rparr>)
      | (Inr u, pg') \<Rightarrow>
          (let w1 = w\<lparr>postgreSQLService := pg'\<rparr> in
           case (if SQLITE_ENABLED cfg
                 then updateJournalEntry env (databaseService w1) i updates
                 else (Inr (), databaseService w1)) of
             (Inl err, db') \<Rightarrow> (Inl err, w1\<lparr>databaseService := db'\<rparr>)
           | (Inr u', db') \<Rightarrow>
               (Inr (), dispatch (UPDATE_ENTRY i updates) (w1\<lparr>databaseService := db'\<rparr>))))"

definition updateEntry ::
  "Config \<Rightarrow> Env \<Rightarrow> string \<Rightarrow> JournalEntryUpdates \<Rightarrow> World \<Rightarrow> (error + unit) \<times> World" where
  "updateEntry cfg env i updates w =
     (case updateEntryTry cfg env i updates w of
        (Inl err, w') \<Rightarrow>
          (Inr (), dispatch (SET_ERROR (Some ''Failed to update journal entry'')) w')
      | (Inr u, w') \<Rightarrow> (Inr (), w'))"

subsection \<open>\<open>mintEntryAsNFT\<close>\<close>

text \<open>
  The checks before the \<open>try\<close> block: they run in the caller's turn, before the
  function first suspends. They read the wallet service and the entries of \<open>st\<close>.
\<close>

definition mintPrecheck ::
  "Config \<Rightarrow> WalletService \<Rightarrow> AppState \<Rightarrow> string \<Rightarrow> error + JournalEntry" where
  "mintPrecheck cfg ws st entryId =
     (if \<not> SOLANA_ENABLED cfg then Inl (Error ''Solana functionality is disabled'')
      else if \<not> isConnected ws then Inl (Error ''Wallet not connected'')
      else case find (\<lambda>e. id' e = entryId) (entries st) of
             None \<Rightarrow> Inl (Error ''Entry not found'')
           | Some entry \<Rightarrow>
               if isMinted entry then Inl (Error ''Entry already minted as NFT'')
               else Inr entry)"

definition mintTry ::
  "Config \<Rightarrow> Env \<Rightarrow> string \<Rightarrow> JournalEntry \<Rightarrow> World \<Rightarrow> (error + string) \<times> World" where
  "mintTry cfg env entryId entry w =
     (case mintJournalEntryAsNFT cfg env (walletService w) (chain w) entry of
        (Inl err, c') \<Rightarrow> (Inl err, w\<lparr>chain := c'\<rparr>)
      | (Inr nftResult, c') \<Rightarrow>
          (let updates = noUpdates
                 \<lparr> isMinted_upd := Some True,
                   nftAddress_upd := Some (nftAddress_res nftResult),
                   nftTransactionSignature_upd := Some (transactionSignature nftResult),
                   nftMetadataUri_upd := Some (metadataUri nftResult),
                   clarityPoints_upd := Some (clarityPoints entry + CONFIG_NFT_MINTING cfg) \<rparr>
           in case updateEntry cfg env entryId updates (w\<lparr>chain := c'\<rparr>) of
                (Inl err, w') \<Rightarrow> (Inl err, w')
              | (Inr u, w') \<Rightarrow> (Inr (nftAddress_res nftResult), w')))"

text \<open>The \<open>try\<close> block with its \<open>catch\<close>, which records the failure and rethrows.\<close>

definition mintResume ::
  "Config \<Rightarrow> Env \<Rightarrow> string \<Rightarrow> JournalEntry \<Rightarrow> World \<Rightarrow> (error + string) \<times> World" where
  "mintResume cfg env entryId entry w =
     (case mintTry cfg env entryId entry w of
        (Inl err, w') \<Rightarrow> (Inl err, dispatch (SET_ERROR (Some ''Failed to mint NFT'')) w')
      | (Inr a, w') \<Rightarrow> (Inr a, w'))"

text \<open>
  \<open>mintEntryAsNFT(entryId)\<close>, called through the function object of the render with
  state \<open>st\<close>.
\<close>

definition mintEntryAsNFT ::
  "Config \<Rightarrow> Env \<Rightarrow> AppState \<Rightarrow> string \<Rightarrow> World \<Rightarrow> (error + string) \<times> World" where
  "mintEntryAsNFT cfg env st entryId w =
     (case mintPrecheck cfg (walletService w) st entryId of
        Inl err \<Rightarrow> (Inl err, w)
      | Inr entry \<Rightarrow> mintResume cfg env entryId entry w)"




subsection \<open>\<open>syncToCloud\<close>\<close>

text \<open>
  The \<open>for\<close> loop: each entry has its own \<open>try\<close>, whose \<open>catch\<close> only logs, so
  the loop goes on whether the two writes of an entry succeed or fail.
\<close>

fun syncLoop :: "Env \<Rightarrow> JournalEntry list \<Rightarrow> World \<Rightarrow> World" where
  "syncLoop env [] w = w"
| "syncLoop env (entry # rest) w =
     (case pg_createJournalEntry env (postgreSQLService w) (entry\<lparr>isSync := True\<rparr>) of
        (Inl err, pg') \<Rightarrow> syncLoop env rest (w\<lparr>postgreSQLService := pg'\<rparr>)
      | (Inr created, pg') \<Rightarrow>
          (let w1 = w\<lparr>postgreSQLService := pg'\<rparr> in
           case updateJournalEntry env (databaseService w1) (id' entry)
                  (noUpdates\<lparr>isSync_upd := Some True\<rparr>) of
             (r, db') \<Rightarrow> syncLoop env rest (w1\<lparr>databaseService := db'\<rparr>)))"

text \<open>
  \<open>syncToCloud()\<close>, called through the function object of the render with state
  \<open>st\<close>: the user and the entries are those of \<open>st\<close>.
\<close>

definition syncToCloudTry :: "Env \<Rightarrow> AppState \<Rightarrow> World \<Rightarrow> (error + unit) \<times> World" where
  "syncToCloudTry env st w =
     (let unsyncedEntries = filter (\<lambda>entry. \<not> isSync entry) (entries st)
      in (Inr (), syncLoop env unsyncedEntries w))"

definition syncToCloud ::
  "Config \<Rightarrow> Env \<Rightarrow> AppState \<Rightarrow> World \<Rightarrow> (error + unit) \<times> World" where
  "syncToCloud cfg env st w =
     (if \<not> POSTGRESQL_ENABLED cfg \<or> user st = None then (Inr (), w)
      else case syncToCloudTry env st w of
             (Inl err, w') \<Rightarrow>
               (Inr (), dispatch (SET_ERROR (Some ''Failed to sync data to cloud'')) w')
           | (Inr u, w') \<Rightarrow> (Inr (), w'))"

section \<open>\<open>updateEntry\<close> of the provider with the local store only\<close>

text \<open>
  The provider of contexts/AppContext.tsx knows SQLite only; its \<open>updateEntry\<close> is
  written \<open>updateEntryLocal\<close>. A string is truthy when it is not empty, a mood always.
\<close>

definition updateEntryLocalTry ::
  "Config \<Rightarrow> Env \<Rightarrow> string \<Rightarrow> JournalEntryUpdates \<Rightarrow> World
   \<Rightarrow> (error + unit) \<times> World" where
  "updateEntryLocalTry cfg env i updates w =
     (if SQLITE_ENABLED cfg then
        (case updateJournalEntry env (databaseService w) i updates of
           (Inl err, db1) \<Rightarrow> (Inl err, w\<lparr>databaseService := db1\<rparr>)
         | (Inr u, db1) \<Rightarrow>
             (let w1 = w\<lparr>databaseService := db1\<rparr> in
              if (case content_upd updates of Some v \<Rightarrow> v \<noteq> [] | None \<Rightarrow> False)
                 \<or> mood_upd updates \<noteq> None
              then
                (case updateJournalEntry env db1 i (noUpdates\<lparr>isSync_upd := Some False\<rparr>) of
                   (Inl err, db2) \<Rightarrow> (Inl err, w1\<lparr>databaseService := db2\<rparr>)
                 | (Inr u', db2) \<Rightarrow>
                     (Inr (), dispatch (UPDATE_ENTRY i (updates\<lparr>isSync_upd := Some False\<rparr>))
                                (w1\<lparr>databaseService := db2\<rparr>)))
              else (Inr (), dispatch (UPDATE_ENTRY i updates) w1)))
      else (Inr (), dispatch (UPDATE_ENTRY i updates) w))"

definition updateEntryLocal ::
  "Config \<Rightarrow> Env \<Rightarrow> string \<Rightarrow> JournalEntryUpdates \<Rightarrow> World
   \<Rightarrow> (error + unit) \<times> World" where
  "updateEntryLocal cfg env i updates w =
     (case updateEntryLocalTry cfg env i updates w of
        (Inl err, w') \<Rightarrow>
          (Inr (), dispatch (SET_ERROR (Some ''Failed to update journal entry'')) w')
      | (Inr u, w') \<Rightarrow> (Inr (), w'))"

section \<open>\<open>handleSave\<close> (screens/NewEntryScreen.tsx)\<close>

text \<open>
  The screen takes \<open>createEntry\<close> and \<open>updateEntry\<close> from the application context:
  they are the first two arguments. \<open>existingEntry\<close> is the entry the screen was opened
  on, if any; \<open>content\<close> (written \<open>content'\<close>) and \<open>selectedMood\<close> are what the user
  has typed and chosen.
  The text input sets no \<open>maxLength\<close>. The result is the title of the alert shown and
  the world the handler leaves; navigation and the \<open>isSaving\<close> flag are not modelled.
\<close>

definition handleSave ::
  "(jsstring \<Rightarrow> MoodType \<Rightarrow> World \<Rightarrow> (error + JournalEntry) \<times> World)
   \<Rightarrow> (string \<Rightarrow> JournalEntryUpdates \<Rightarrow> World \<Rightarrow> (error + unit) \<times> World)
   \<Rightarrow> JournalEntry option \<Rightarrow> jsstring \<Rightarrow> MoodType option \<Rightarrow> World \<Rightarrow> string \<times> World" where
  "handleSave createEntry' updateEntry' existingEntry content' selectedMood w =
     (case selectedMood of
        None \<Rightarrow> (''Select Your Mood'', w)
      | Some selected \<Rightarrow>
          if length (trim content') < 10 then (''Write More'', w)
          else case existingEntry of
            Some existing \<Rightarrow>
              (case updateEntry' (id' existing)
                      (noUpdates\<lparr>content_upd := Some (trim content'),
                                 mood_upd := Some selected\<rparr>) w of
                 (Inl err, w') \<Rightarrow> (''Save Failed'', w')
               | (Inr u, w') \<Rightarrow> (''Entry Updated'', w'))
          | None \<Rightarrow>
              (case createEntry' (trim content') selected w of
                 (Inl err, w') \<Rightarrow> (''Save Failed'', w')
               | (Inr entry, w') \<Rightarrow> (''Entry Saved'', w')))"

section \<open>Notions that state the properties of the provider\<close>

text \<open>
  The \<open>k\<close>-th write of a sweep reaches the mirror: the service is usable and the
  statement it gives to the pool, the \<open>k\<close>-th from now, does not fail.
\<close>

definition mirrorAccepts :: "Env \<Rightarrow> PostgreSQLService \<Rightarrow> nat \<Rightarrow> bool" where
  "mirrorAccepts env pg k \<longleftrightarrow>
     \<not> reactNative pg
     \<and> (case pool pg of None \<Rightarrow> False | Some conn \<Rightarrow> pgFails env (queries conn + k) = None)"

text \<open>
  The stores that are enabled accept the next statement given to them: the mirror as
  above, the local store when it is open and its next statement does not fail.
\<close>

definition storesAccept :: "Config \<Rightarrow> Env \<Rightarrow> World \<Rightarrow> bool" where
  "storesAccept cfg env w \<longleftrightarrow>
     (POSTGRESQL_ENABLED cfg \<longrightarrow> mirrorAccepts env (postgreSQLService w) 0)
     \<and> (SQLITE_ENABLED cfg \<longrightarrow>
          (case db (databaseService w) of
             None \<Rightarrow> False
           | Some conn \<Rightarrow> sqliteFails env (queries conn) = None))"

text \<open>A row of the local store after \<open>updateJournalEntry(id, { isSync: true })\<close>.\<close>

definition markSynced :: "Env \<Rightarrow> int DBJournalEntry \<Rightarrow> int DBJournalEntry" where
  "markSynced env r = r\<lparr>updated_at := clock env, is_sync := 1\<rparr>"

section \<open>Sample data\<close>

text \<open>
  An unminted, unsynced entry with a given identifier and creation time, worth the 30
  points of a tracked mood and a streak of three days.
\<close>

definition entryAt :: "string \<Rightarrow> int \<Rightarrow> JournalEntry" where
  "entryAt i t = \<lparr> id' = i, userId = ''u1'', content = jsString ''I am grateful today'',
      mood = grateful,
      createdAt = t, updatedAt = t, isMinted = False, nftAddress = None,
      clarityPoints = 30, isSync = False, nftTransactionSignature = None,
      nftMetadataUri = None \<rparr>"

text \<open>
  A zone one hour ahead of UTC that moves its clocks forward by one hour at 01:00 UTC
  of day 1 (02:00 local time becomes 03:00). A local time that the change skips is read
  with the offset in force before the change.
\<close>

definition springForward :: TimeZone where
  "springForward t isUTC =
     (if isUTC then (if t < 90000000 then 3600000 else 7200000)
      else (if t < 97200000 then 3600000 else 7200000))"

text \<open>
  An environment in which nothing fails, a connected wallet, no wallet, and the row the
  database service keeps for an entry.
\<close>

definition sampleEnv :: Env where
  "sampleEnv = \<lparr> clock = 1000,
     genId = (\<lambda>n. ''pg'' @ replicate n (CHR ''i'')),
     sqliteFails = (\<lambda>n. None),
     pgFails = (\<lambda>n. None),
     rpcFails = (\<lambda>n. False),
     freshKey = (\<lambda>n. ''key'' @ replicate n (CHR ''k'')),
     freshSig = (\<lambda>n. ''sig'' @ replicate n (CHR ''s'')),
     mockUri = (\<lambda>n. ''https://mockipfs.com/metadata/'' @ replicate n (CHR ''m'')) \<rparr>"

definition connectedWallet :: WalletService where
  "connectedWallet = \<lparr> currentWallet = Some \<lparr> publicKey = Some ''wallet1'', connected = True \<rparr>,
     connectedKeypair = Some ''wallet1'' \<rparr>"


definition sampleUser :: User where
  "sampleUser = \<lparr> id_user = ''u1'', walletAddress = Some ''wallet1'', totalClarityPoints = 30,
     currentStreak = 1, longestStreak = 1, lastEntryDate = None, createdAt_user = 0,
     preferences = \<lparr> enableNotifications = True, notificationTime = ''20:00'',
       theme = light, autoSync = True \<rparr> \<rparr>"

definition entryToRow :: "JournalEntry \<Rightarrow> int DBJournalEntry" where
  "entryToRow e = \<lparr> id_db = id' e, user_id = userId e, content_db = content e,
     mood_db = mood e, created_at = createdAt e, updated_at = updatedAt e,
     is_minted = (if isMinted e then 1 else 0), nft_address = nftAddress e,
     clarity_points = clarityPoints e, is_sync = (if isSync e then 1 else 0) \<rparr>"

text \<open>
  A state with the given entries, and a world with that state, the same entries in the
  local store, an empty mirror and an empty cluster.
\<close>

definition sampleState :: "JournalEntry list \<Rightarrow> WalletService \<Rightarrow> AppState" where
  "sampleState es ws =
     \<lparr> user = Some sampleUser, entries = es, loading = False, error = None,
       syncStatus = \<lparr> isOnline = True, lastSyncTime = None, pendingSync = 0 \<rparr>,
       initialized = True, walletConnected = isConnected ws \<rparr>"

definition sampleWorld :: "JournalEntry list \<Rightarrow> WalletService \<Rightarrow> World" where
  "sampleWorld es ws =
     \<lparr> state = sampleState es ws,
       databaseService = \<lparr> db = Some \<lparr> rows = map entryToRow es, queries = 0 \<rparr> \<rparr>,
       postgreSQLService = \<lparr> reactNative = False, pool = Some \<lparr> rows = [], queries = 0 \<rparr> \<rparr>,
       walletService = ws,
       chain = \<lparr> rpcCalls = 0, mintAccounts = [], tokenAccounts = [], tokens = [] \<rparr> \<rparr>"

text \<open>
  Three unsynced entries and a synced one; an environment in which the second statement
  given to the mirror fails, and one in which every statement given to it fails.
\<close>

definition sweepEntries :: "JournalEntry list" where
  "sweepEntries = [entryAt ''a'' 5, entryAt ''b'' 6, entryAt ''c'' 7,
     (entryAt ''d'' 8)\<lparr>isSync := True\<rparr>]"

definition secondWriteFails :: Env where
  "secondWriteFails =
     sampleEnv\<lparr>pgFails := \<lambda>n. if n = 1 then Some (Error ''connection refused'') else None\<rparr>"

definition mirrorDown :: Env where
  "mirrorDown = sampleEnv\<lparr>pgFails := \<lambda>n. Some (Error ''connection refused'')\<rparr>"

text \<open>An entry that has been mirrored.\<close>

definition syncedEntry :: JournalEntry where
  "syncedEntry = (entryAt ''e1'' 5)\<lparr>content := jsString ''A quiet morning walk'',
     isSync := True\<rparr>"

section \<open>Properties of the ledger functions\<close>

text \<open>
  C7. For an unminted entry with the mood tracked and a current streak of 3,
  \<open>calculateClarityPoints\<close> returns dailyEntry 10, moodTracking 5, streakBonus 15,
  nftMinting 0 and total 30; and for every streak the bonus is the step function with
  three thresholds: 200 from 30 days on, else 50 from 7 days on, else 15 from 3 days
  on, else 0.
\<close>

theorem calculateClarityPoints_streak3_and_steps:
  "calculateClarityPoints (entry\<lparr>isMinted := False\<rparr>) 3 True =
     \<lparr> dailyEntry = 10, streakBonus = 15, moodTracking = 5, nftMinting = 0, total = 30 \<rparr>
   \<and> streakBonus (calculateClarityPoints e s m) =
       (if s \<ge> 30 then 200 else if s \<ge> 7 then 50 else if s \<ge> 3 then 15 else 0)"
  by (simp add: calculateClarityPoints_def DAILY_ENTRY_def MOOD_TRACKING_def
      NFT_MINTING_def STREAK_3_DAYS_def STREAK_7_DAYS_def STREAK_30_DAYS_def Let_def)

subsection \<open>Days and the loop of \<open>calculateStreak\<close>\<close>






text \<open>The loop reads nothing of an entry but its creation time.\<close>

lemma streakLoop_cong:
  "map createdAt xs = map createdAt ys \<Longrightarrow>
   streakLoop tz cur xs s = streakLoop tz cur ys s"
proof (induction xs arbitrary: ys s)
  case Nil
  then show ?case by simp
next
  case (Cons x xs)
  then obtain y ys' where ys: "ys = y # ys'" "createdAt x = createdAt y"
    "map createdAt xs = map createdAt ys'"
    by (cases ys) auto
  from Cons.IH [OF ys(3)] show ?case
    by (simp add: ys Let_def)
qed

lemma map_key_sort_key: "map f (sort_key f xs) = sort (map f xs)"
  by (rule properties_for_sort [symmetric]) simp_all

text \<open>The creation times in sorted order are the same for every order of the input.\<close>

lemma sortNewestFirst_perm:
  assumes "mset xs = mset ys"
  shows "map createdAt (sortNewestFirst xs) = map createdAt (sortNewestFirst ys)"
proof -
  let ?f = "\<lambda>e. - createdAt e"
  have "mset (map ?f xs) = mset (map ?f ys)"
    using assms by (metis mset_map)
  then have "sort (map ?f xs) = sort (map ?f ys)"
    by (metis properties_for_sort mset_sort sorted_sort)
  then have "map ?f (sort_key ?f xs) = map ?f (sort_key ?f ys)"
    by (simp add: map_key_sort_key)
  then have "map uminus (map ?f (sort_key ?f xs)) = map uminus (map ?f (sort_key ?f ys))"
    by simp
  then show ?thesis
    by (simp add: sortNewestFirst_def comp_def)
qed




subsection \<open>Claims on the ledger\<close>

text \<open>
  C8. For every entry, streak and mood flag, the total of the breakdown returned by
  \<open>calculateClarityPoints\<close> is dailyEntry + moodTracking + streakBonus + nftMinting;
  \<open>calculateStreak\<close> returns 0 for the empty list, and the same value for every
  permutation of its list of entries. This holds in every time zone, whatever its
  changes of offset.
\<close>

theorem total_sum_and_streak_permutation:
  "total (calculateClarityPoints entry streak moodTracked) =
     dailyEntry (calculateClarityPoints entry streak moodTracked)
     + moodTracking (calculateClarityPoints entry streak moodTracked)
     + streakBonus (calculateClarityPoints entry streak moodTracked)
     + nftMinting (calculateClarityPoints entry streak moodTracked)
   \<and> calculateStreak [] u tz now = 0
   \<and> (mset xs = mset ys \<longrightarrow> calculateStreak xs u tz now = calculateStreak ys u tz now)"
proof (intro conjI impI)
  show "total (calculateClarityPoints entry streak moodTracked) =
     dailyEntry (calculateClarityPoints entry streak moodTracked)
     + moodTracking (calculateClarityPoints entry streak moodTracked)
     + streakBonus (calculateClarityPoints entry streak moodTracked)
     + nftMinting (calculateClarityPoints entry streak moodTracked)"
    by (simp add: calculateClarityPoints_def Let_def)
  show "calculateStreak [] u tz now = 0"
    by (simp add: calculateStreak_def)
  assume perm: "mset xs = mset ys"
  then have len: "length xs = length ys"
    by (rule mset_eq_length)
  from sortNewestFirst_perm [OF perm]
  have "streakLoop tz (setHours0 tz now) (sortNewestFirst xs) 0
        = streakLoop tz (setHours0 tz now) (sortNewestFirst ys) 0"
    by (rule streakLoop_cong)
  with len show "calculateStreak xs u tz now = calculateStreak ys u tz now"
    by (simp add: calculateStreak_def Let_def)
qed

text \<open>
  Two entries in either order, in a zone that moves its clocks forward between them and
  today.
\<close>

theorem total_sum_and_streak_permutation_witness:
  "mset [entryAt ''a'' 5, entryAt ''b'' 122400000] = mset [entryAt ''b'' 122400000, entryAt ''a'' 5]
   \<and> calculateStreak [entryAt ''a'' 5, entryAt ''b'' 122400000] () springForward 208800000
     = calculateStreak [entryAt ''b'' 122400000, entryAt ''a'' 5] () springForward 208800000"
proof -
  have m: "mset [entryAt ''a'' 5, entryAt ''b'' 122400000]
           = mset [entryAt ''b'' 122400000, entryAt ''a'' 5]"
    by (simp add: add.commute)
  with total_sum_and_streak_permutation
    [of _ _ _ "()" springForward 208800000 "[entryAt ''a'' 5, entryAt ''b'' 122400000]"
       "[entryAt ''b'' 122400000, entryAt ''a'' 5]"]
  show ?thesis by blast
qed




text \<open>
  The scenario of the specification, evaluated in the zone of UTC: two entries today,
  one yesterday, one three days ago, in no particular order.
\<close>

lemma calculateStreak_gap_scenario:
  "calculateStreak [entryAt ''e3'' 20, entryAt ''e0'' 259200700, entryAt ''e1'' 172800500,
      entryAt ''e0b'' 259200900] () (fixedOffset 0) 259286400 = 2"
  by (simp add: calculateStreak_def sortNewestFirst_def setHours0_def fixedOffset_def
      MS_PER_DAY_def entryAt_def Let_def)

text \<open>
  Where the clocks move forward between an entry and today, the two local midnights are
  not whole days apart and the loop counts one day less. In the sample zone the clocks
  move forward on day 1 and today is day 2. An entry of day 1 is at distance 0, so that
  a list with no entry today has streak 1; an entry of day 0 is at distance 1, so that
  entries today and on day 0, none on day 1, have streak 2.
\<close>

lemma calculateStreak_across_spring_forward:
  "calculateStreak [entryAt ''e1'' 122400000] () springForward 208800000 = 1"
  "calculateStreak [entryAt ''e2'' 208000000, entryAt ''e0'' 40000000] ()
     springForward 208800000 = 2"
  by (simp_all add: calculateStreak_def sortNewestFirst_def setHours0_def springForward_def
      MS_PER_DAY_def entryAt_def Let_def)

subsection \<open>Trimming\<close>

lemma length_trim_le: "length (trim c) \<le> length c"
proof -
  have "length (trim c) \<le> length (dropWhile isWhiteSpace c)"
    unfolding trim_def by (simp add: length_dropWhile_le order_trans [OF length_dropWhile_le])
  also have "\<dots> \<le> length c" by (rule length_dropWhile_le)
  finally show ?thesis .
qed

lemma trim_padded:
  "\<not> isWhiteSpace a \<Longrightarrow> isWhiteSpace b \<Longrightarrow> 0 < n \<Longrightarrow>
   trim (replicate n a @ replicate m b) = replicate n a"
  by (cases n) (simp_all add: trim_def dropWhile_append3 replicate_append_same)

section \<open>Properties of the local store\<close>

text \<open>The row that the \<open>SET\<close> clause built by \<open>updateJournalEntry\<close> leaves.\<close>

lemma fold_sqliteSetClause:
  "fold assign (sqliteSetClause env updates) r =
     r\<lparr> updated_at := clock env,
        content_db := (case content_upd updates of None \<Rightarrow> content_db r | Some v \<Rightarrow> v),
        mood_db := (case mood_upd updates of None \<Rightarrow> mood_db r | Some v \<Rightarrow> v),
        is_minted := (case isMinted_upd updates of
                        None \<Rightarrow> is_minted r | Some v \<Rightarrow> if v then 1 else 0),
        nft_address := (case nftAddress_upd updates of
                          None \<Rightarrow> nft_address r | Some v \<Rightarrow> Some v),
        clarity_points := (case clarityPoints_upd updates of
                             None \<Rightarrow> clarity_points r | Some v \<Rightarrow> v),
        is_sync := (case isSync_upd updates of
                      None \<Rightarrow> is_sync r | Some v \<Rightarrow> if v then 1 else 0) \<rparr>"
  by (simp add: sqliteSetClause_def Let_def split: option.split)

text \<open>
  C10. \<open>updateJournalEntry\<close> of the database service fails when the database is not
  open or the statement fails, and then no row changes. Otherwise, in every row with
  the given identifier, it writes \<open>updated_at\<close> and those of content, mood, is_minted,
  nft_address, clarity_points and is_sync that the update object names; every other
  column of these rows keeps its value, and every other row is left as it was. An update
  object naming no field rewrites \<open>updated_at\<close> only.
\<close>

theorem updateJournalEntry_frame:
  "updateJournalEntry env svc i updates =
     (case db svc of
        None \<Rightarrow> (Inl (Error ''Database not initialized''), svc)
      | Some conn \<Rightarrow>
          (case sqliteFails env (queries conn) of
             Some err \<Rightarrow> (Inl err, svc\<lparr>db := Some (conn\<lparr>queries := queries conn + 1\<rparr>)\<rparr>)
           | None \<Rightarrow>
               (Inr (), svc\<lparr>db := Some \<lparr> rows = map (\<lambda>r.
                 if id_db r = i
                 then r\<lparr> updated_at := clock env,
                         content_db := (case content_upd updates of
                                          None \<Rightarrow> content_db r | Some v \<Rightarrow> v),
                         mood_db := (case mood_upd updates of None \<Rightarrow> mood_db r | Some v \<Rightarrow> v),
                         is_minted := (case isMinted_upd updates of
                                         None \<Rightarrow> is_minted r | Some v \<Rightarrow> if v then 1 else 0),
                         nft_address := (case nftAddress_upd updates of
                                           None \<Rightarrow> nft_address r | Some v \<Rightarrow> Some v),
                         clarity_points := (case clarityPoints_upd updates of
                                              None \<Rightarrow> clarity_points r | Some v \<Rightarrow> v),
                         is_sync := (case isSync_upd updates of
                                       None \<Rightarrow> is_sync r | Some v \<Rightarrow> if v then 1 else 0) \<rparr>
                 else r) (rows conn), queries = queries conn + 1 \<rparr>\<rparr>)))
   \<and> updateJournalEntry env svc i noUpdates =
     (case db svc of
        None \<Rightarrow> (Inl (Error ''Database not initialized''), svc)
      | Some conn \<Rightarrow>
          (case sqliteFails env (queries conn) of
             Some err \<Rightarrow> (Inl err, svc\<lparr>db := Some (conn\<lparr>queries := queries conn + 1\<rparr>)\<rparr>)
           | None \<Rightarrow>
               (Inr (), svc\<lparr>db := Some \<lparr> rows = map (\<lambda>r.
                 if id_db r = i then r\<lparr>updated_at := clock env\<rparr> else r) (rows conn),
                 queries = queries conn + 1 \<rparr>\<rparr>)))"
  by (simp add: updateJournalEntry_def runStatement_def fold_sqliteSetClause noUpdates_def
      Let_def split: option.split)

text \<open>The statement that marks an entry as mirrored.\<close>

lemma updateJournalEntry_isSync_True:
  "updateJournalEntry env svc i (noUpdates\<lparr>isSync_upd := Some True\<rparr>) =
     (case db svc of
        None \<Rightarrow> (Inl (Error ''Database not initialized''), svc)
      | Some conn \<Rightarrow>
          (case sqliteFails env (queries conn) of
             Some err \<Rightarrow> (Inl err, svc\<lparr>db := Some (conn\<lparr>queries := queries conn + 1\<rparr>)\<rparr>)
           | None \<Rightarrow>
               (Inr (), svc\<lparr>db := Some \<lparr> rows = map (\<lambda>r.
                 if id_db r = i then markSynced env r else r) (rows conn),
                 queries = queries conn + 1 \<rparr>\<rparr>)))"
  by (simp add: updateJournalEntry_def runStatement_def fold_sqliteSetClause noUpdates_def
      markSynced_def Let_def split: option.split)

section \<open>Properties of \<open>syncToCloud\<close>\<close>

text \<open>\<open>createJournalEntry\<close> of the mirror, by its three ways to fail.\<close>

lemma pg_createJournalEntry_cases:
  "pg_createJournalEntry env pg e =
     (if reactNative pg
      then (Inl (Error ''PostgreSQL operations not available in React Native''), pg)
      else case pool pg of
        None \<Rightarrow> (Inl (Error ''Database not initialized''), pg)
      | Some conn \<Rightarrow>
          (case pgFails env (queries conn) of
             Some err \<Rightarrow> (Inl err, pg\<lparr>pool := Some (conn\<lparr>queries := queries conn + 1\<rparr>)\<rparr>)
           | None \<Rightarrow>
               (Inr e, pg\<lparr>pool := Some
                  \<lparr> rows = rows conn @
                      [\<lparr> id_db = genId env (queries conn), user_id = userId e,
                         content_db = content e, mood_db = mood e, created_at = clock env,
                         updated_at = clock env, is_minted = isMinted e,
                         nft_address = (case nftAddress e of
                                          None \<Rightarrow> None
                                        | Some a \<Rightarrow> if a = [] then None else Some a),
                         clarity_points = clarityPoints e, is_sync = isSync e \<rparr>],
                    queries = queries conn + 1 \<rparr>\<rparr>)))"
  by (simp add: pg_createJournalEntry_def runStatement_def Let_def split: option.split)

text \<open>With the mirror service unusable the loop leaves the world as it was.\<close>

lemma syncLoop_unreachable:
  "reactNative (postgreSQLService w) \<or> pool (postgreSQLService w) = None \<Longrightarrow>
   syncLoop env es w = w"
  by (induction es) (auto simp: pg_createJournalEntry_cases)

lemma markSynced_idem [simp]: "markSynced env (markSynced env r) = markSynced env r"
  by (simp add: markSynced_def)

lemma id_db_markSynced [simp]: "id_db (markSynced env r) = id_db r"
  by (simp add: markSynced_def)

lemma syncLoop_state [simp]: "state (syncLoop env es w) = state w"
  by (induction es arbitrary: w)
     (auto simp: Let_def split: prod.splits sum.splits)

lemma syncLoop_wallet_chain [simp]:
  "walletService (syncLoop env es w) = walletService w"
  "chain (syncLoop env es w) = chain w"
  by (induction es arbitrary: w; auto simp: Let_def split: prod.splits sum.splits)+

lemma mirrorAccepts_after_create:
  "mirrorAccepts env (snd (pg_createJournalEntry env pg e)) k = mirrorAccepts env pg (Suc k)"
  by (simp add: pg_createJournalEntry_cases mirrorAccepts_def split: option.split)

lemma pg_createJournalEntry_rejected:
  "\<not> mirrorAccepts env pg 0 \<Longrightarrow> \<exists>err. fst (pg_createJournalEntry env pg e) = Inl err"
  by (auto simp: pg_createJournalEntry_cases mirrorAccepts_def split: option.split)

lemma pg_createJournalEntry_accepted:
  "mirrorAccepts env pg 0 \<Longrightarrow> fst (pg_createJournalEntry env pg e) = Inr e"
  by (auto simp: pg_createJournalEntry_cases mirrorAccepts_def split: option.splits)

text \<open>What one iteration of the loop does, by the outcome of its two writes.\<close>

lemma syncLoop_Cons_rejected:
  assumes "\<not> mirrorAccepts env (postgreSQLService w) 0"
  shows "syncLoop env (e # es) w =
           syncLoop env es (w\<lparr>postgreSQLService :=
             snd (pg_createJournalEntry env (postgreSQLService w) (e\<lparr>isSync := True\<rparr>))\<rparr>)"
proof -
  from pg_createJournalEntry_rejected [OF assms] obtain err where
    "fst (pg_createJournalEntry env (postgreSQLService w) (e\<lparr>isSync := True\<rparr>)) = Inl err"
    by blast
  then show ?thesis
    by (cases "pg_createJournalEntry env (postgreSQLService w) (e\<lparr>isSync := True\<rparr>)") simp
qed

lemma syncLoop_Cons_accepted:
  assumes "mirrorAccepts env (postgreSQLService w) 0"
  shows "syncLoop env (e # es) w =
           syncLoop env es (w\<lparr>postgreSQLService :=
               snd (pg_createJournalEntry env (postgreSQLService w) (e\<lparr>isSync := True\<rparr>)),
             databaseService := snd (updateJournalEntry env (databaseService w) (id' e)
                                      (noUpdates\<lparr>isSync_upd := Some True\<rparr>))\<rparr>)"
proof -
  from pg_createJournalEntry_accepted [OF assms]
  have "fst (pg_createJournalEntry env (postgreSQLService w) (e\<lparr>isSync := True\<rparr>))
          = Inr (e\<lparr>isSync := True\<rparr>)" .
  then show ?thesis
    by (cases "pg_createJournalEntry env (postgreSQLService w) (e\<lparr>isSync := True\<rparr>)")
       (simp add: Let_def split: prod.split)
qed

lemma syncLoop_db_None:
  "db (databaseService w) = None \<Longrightarrow> databaseService (syncLoop env es w) = databaseService w"
proof (induction es arbitrary: w)
  case Nil
  then show ?case by simp
next
  case (Cons e es)
  show ?case
  proof (cases "mirrorAccepts env (postgreSQLService w) 0")
    case True
    have "snd (updateJournalEntry env (databaseService w) (id' e)
                      (noUpdates\<lparr>isSync_upd := Some True\<rparr>)) = databaseService w"
      using Cons.prems by (simp add: updateJournalEntry_isSync_True)
    then show ?thesis
      using Cons.IH Cons.prems by (simp add: syncLoop_Cons_accepted [OF True] del: syncLoop.simps)
  next
    case False
    then show ?thesis
      using Cons.IH Cons.prems by (simp add: syncLoop_Cons_rejected [OF False] del: syncLoop.simps)
  qed
qed

lemma syncLoop_none_accepted:
  "\<forall>k. \<not> mirrorAccepts env (postgreSQLService w) k \<Longrightarrow>
   databaseService (syncLoop env es w) = databaseService w"
proof (induction es arbitrary: w)
  case Nil
  then show ?case by simp
next
  case (Cons e es)
  then have no: "\<not> mirrorAccepts env (postgreSQLService w) 0" by blast
  let ?w1 = "w\<lparr>postgreSQLService :=
             snd (pg_createJournalEntry env (postgreSQLService w) (e\<lparr>isSync := True\<rparr>))\<rparr>"
  from Cons.prems have "\<forall>k. \<not> mirrorAccepts env (postgreSQLService ?w1) k"
    by (simp add: mirrorAccepts_after_create)
  from Cons.IH [OF this] show ?case
    by (simp add: syncLoop_Cons_rejected [OF no] del: syncLoop.simps)
qed

text \<open>
  The rows of the local store after the loop, when the store is open and accepts every
  statement: a row is marked exactly when the mirror accepted the write of an entry with
  its identifier, wherever that entry stands in the list.
\<close>

lemma syncLoop_rows:
  assumes "db (databaseService w) = Some dc" and "\<forall>n. sqliteFails env n = None"
  shows "\<exists>dc'. db (databaseService (syncLoop env es w)) = Some dc'
          \<and> rows dc' = map (\<lambda>r.
                if \<exists>k<length es. id' (es ! k) = id_db r
                                 \<and> mirrorAccepts env (postgreSQLService w) k
                then markSynced env r else r) (rows dc)"
  using assms(1)
proof (induction es arbitrary: w dc)
  case Nil
  then show ?case by simp
next
  case (Cons e es)
  show ?case
  proof (cases "mirrorAccepts env (postgreSQLService w) 0")
    case False
    let ?w1 = "w\<lparr>postgreSQLService :=
             snd (pg_createJournalEntry env (postgreSQLService w) (e\<lparr>isSync := True\<rparr>))\<rparr>"
    have "db (databaseService ?w1) = Some dc" using Cons.prems by simp
    from Cons.IH [OF this] False show ?thesis
      by (simp add: syncLoop_Cons_rejected [OF False] mirrorAccepts_after_create Ex_less_Suc2
          del: syncLoop.simps)
  next
    case True
    let ?dc1 = "\<lparr> rows = map (\<lambda>r. if id_db r = id' e then markSynced env r else r) (rows dc),
                  queries = queries dc + 1 \<rparr>"
    let ?w1 = "w\<lparr>postgreSQLService :=
               snd (pg_createJournalEntry env (postgreSQLService w) (e\<lparr>isSync := True\<rparr>)),
             databaseService := snd (updateJournalEntry env (databaseService w) (id' e)
                                      (noUpdates\<lparr>isSync_upd := Some True\<rparr>))\<rparr>"
    have "db (databaseService ?w1) = Some ?dc1"
      using Cons.prems assms(2) by (simp add: updateJournalEntry_isSync_True)
    from Cons.IH [OF this] True show ?thesis
      by (auto simp: syncLoop_Cons_accepted [OF True] mirrorAccepts_after_create Ex_less_Suc2
          comp_def simp del: syncLoop.simps)
  qed
qed

text \<open>
  Whatever the local store answers: a row is left as it was or marked, and it is marked
  only if the mirror accepted the write of an entry with its identifier.
\<close>

lemma syncLoop_rows_only_after:
  assumes "db (databaseService w) = Some dc"
  shows "\<exists>dc'. db (databaseService (syncLoop env es w)) = Some dc'
          \<and> length (rows dc') = length (rows dc)
          \<and> (\<forall>j<length (rows dc).
                rows dc' ! j = rows dc ! j
                \<or> (rows dc' ! j = markSynced env (rows dc ! j)
                   \<and> (\<exists>k<length es. id' (es ! k) = id_db (rows dc ! j)
                                    \<and> mirrorAccepts env (postgreSQLService w) k)))"
  using assms
proof (induction es arbitrary: w dc)
  case Nil
  then show ?case by simp
next
  case (Cons e es)
  show ?case
  proof (cases "mirrorAccepts env (postgreSQLService w) 0")
    case False
    let ?w1 = "w\<lparr>postgreSQLService :=
             snd (pg_createJournalEntry env (postgreSQLService w) (e\<lparr>isSync := True\<rparr>))\<rparr>"
    have "db (databaseService ?w1) = Some dc" using Cons.prems by simp
    from Cons.IH [OF this] obtain dc' where
      d: "db (databaseService (syncLoop env es ?w1)) = Some dc'"
      and l: "length (rows dc') = length (rows dc)"
      and r: "\<And>j. j < length (rows dc) \<Longrightarrow>
                rows dc' ! j = rows dc ! j
                \<or> (rows dc' ! j = markSynced env (rows dc ! j)
                   \<and> (\<exists>k<length es. id' (es ! k) = id_db (rows dc ! j)
                                    \<and> mirrorAccepts env (postgreSQLService w) (Suc k)))"
      by (auto simp: mirrorAccepts_after_create)
    have "rows dc' ! j = rows dc ! j
          \<or> (rows dc' ! j = markSynced env (rows dc ! j)
             \<and> (\<exists>k<length (e # es). id' ((e # es) ! k) = id_db (rows dc ! j)
                              \<and> mirrorAccepts env (postgreSQLService w) k))"
      if "j < length (rows dc)" for j
      using r [OF that] by (auto simp: Ex_less_Suc2)
    with d l show ?thesis
      by (simp add: syncLoop_Cons_rejected [OF False] del: syncLoop.simps)
  next
    case True
    let ?f = "\<lambda>r. if id_db r = id' e then markSynced env r else r"
    let ?w1 = "w\<lparr>postgreSQLService :=
               snd (pg_createJournalEntry env (postgreSQLService w) (e\<lparr>isSync := True\<rparr>)),
             databaseService := snd (updateJournalEntry env (databaseService w) (id' e)
                                      (noUpdates\<lparr>isSync_upd := Some True\<rparr>))\<rparr>"
    obtain dc1 where d1: "db (databaseService ?w1) = Some dc1"
      and r1: "rows dc1 = rows dc \<or> rows dc1 = map ?f (rows dc)"
      using Cons.prems
      by (cases "sqliteFails env (queries dc)") (auto simp: updateJournalEntry_isSync_True)
    then have l1: "length (rows dc1) = length (rows dc)" by auto
    from Cons.IH [OF d1] obtain dc' where
      d: "db (databaseService (syncLoop env es ?w1)) = Some dc'"
      and l: "length (rows dc') = length (rows dc1)"
      and r: "\<And>j. j < length (rows dc1) \<Longrightarrow>
                rows dc' ! j = rows dc1 ! j
                \<or> (rows dc' ! j = markSynced env (rows dc1 ! j)
                   \<and> (\<exists>k<length es. id' (es ! k) = id_db (rows dc1 ! j)
                                    \<and> mirrorAccepts env (postgreSQLService w) (Suc k)))"
      by (auto simp: mirrorAccepts_after_create)
    have "rows dc' ! j = rows dc ! j
          \<or> (rows dc' ! j = markSynced env (rows dc ! j)
             \<and> (\<exists>k<length (e # es). id' ((e # es) ! k) = id_db (rows dc ! j)
                              \<and> mirrorAccepts env (postgreSQLService w) k))"
      if j: "j < length (rows dc)" for j
    proof -
      from j l1 have j1: "j < length (rows dc1)" by simp
      from r1 j have c1: "rows dc1 ! j = rows dc ! j
          \<or> (rows dc1 ! j = markSynced env (rows dc ! j) \<and> id_db (rows dc ! j) = id' e)"
        by (auto split: if_splits)
      from r [OF j1] c1 True show ?thesis
        by (auto simp: Ex_less_Suc2)
    qed
    with d l l1 show ?thesis
      by (simp add: syncLoop_Cons_accepted [OF True] del: syncLoop.simps)
  qed
qed

text \<open>
  C5. \<open>syncToCloud\<close> never rejects and never touches the state of the reducer. When
  no write reaches the mirror, the local store is left as it was: every \<open>is_sync\<close>
  flag stays as it is. In general the sweep goes through the entries with \<open>isSync\<close>
  false of the state it reads (that of the render that created the function), in order:
  a row of the local store is left as it was or marked (\<open>is_sync = 1\<close>), and it is
  marked only if the mirror accepted the write of an entry with its identifier. When the
  sweep runs and the local store accepts every statement, a row is marked exactly when
  the mirror accepted the write of an entry with its identifier: a write that fails
  leaves its row and does not stop the sweep.
\<close>

theorem syncToCloud_marks_after_mirror_write:
  "fst (syncToCloud cfg env st w) = Inr ()
   \<and> state (snd (syncToCloud cfg env st w)) = state w
   \<and> ((\<forall>k. \<not> mirrorAccepts env (postgreSQLService w) k) \<longrightarrow>
        databaseService (snd (syncToCloud cfg env st w)) = databaseService w)
   \<and> (\<forall>dc. db (databaseService w) = Some dc \<longrightarrow>
        (\<exists>dc'. db (databaseService (snd (syncToCloud cfg env st w))) = Some dc'
           \<and> length (rows dc') = length (rows dc)
           \<and> (\<forall>j<length (rows dc).
                 rows dc' ! j = rows dc ! j
                 \<or> (rows dc' ! j = markSynced env (rows dc ! j)
                    \<and> (\<exists>k<length (filter (\<lambda>e. \<not> isSync e) (entries st)).
                          id' (filter (\<lambda>e. \<not> isSync e) (entries st) ! k)
                            = id_db (rows dc ! j)
                          \<and> mirrorAccepts env (postgreSQLService w) k)))))
   \<and> (POSTGRESQL_ENABLED cfg \<and> user st \<noteq> None \<and> (\<forall>n. sqliteFails env n = None) \<longrightarrow>
        (\<forall>dc. db (databaseService w) = Some dc \<longrightarrow>
          (\<exists>dc'. db (databaseService (snd (syncToCloud cfg env st w))) = Some dc'
             \<and> rows dc' = map (\<lambda>r.
                  if \<exists>k<length (filter (\<lambda>e. \<not> isSync e) (entries st)).
                       id' (filter (\<lambda>e. \<not> isSync e) (entries st) ! k) = id_db r
                       \<and> mirrorAccepts env (postgreSQLService w) k
                  then markSynced env r else r) (rows dc))))"
proof (cases "\<not> POSTGRESQL_ENABLED cfg \<or> user st = None")
  case True
  then have "syncToCloud cfg env st w = (Inr (), w)"
    by (auto simp: syncToCloud_def)
  with True show ?thesis by auto
next
  case False
  let ?un = "filter (\<lambda>e. \<not> isSync e) (entries st)"
  from False have "POSTGRESQL_ENABLED cfg" and "user st \<noteq> None"
    by auto
  then have eq: "syncToCloud cfg env st w = (Inr (), syncLoop env ?un w)"
    by (auto simp: syncToCloud_def syncToCloudTry_def)
  show ?thesis
    unfolding eq fst_conv snd_conv
  proof (intro conjI allI impI)
    show "Inr () = (Inr () :: error + unit)" ..
    show "state (syncLoop env ?un w) = state w" by simp
    show "databaseService (syncLoop env ?un w) = databaseService w"
      if "\<forall>k. \<not> mirrorAccepts env (postgreSQLService w) k"
      using that by (rule syncLoop_none_accepted)
    show "\<exists>dc'. db (databaseService (syncLoop env ?un w)) = Some dc'
           \<and> length (rows dc') = length (rows dc)
           \<and> (\<forall>j<length (rows dc).
                 rows dc' ! j = rows dc ! j
                 \<or> (rows dc' ! j = markSynced env (rows dc ! j)
                    \<and> (\<exists>k<length ?un. id' (?un ! k) = id_db (rows dc ! j)
                          \<and> mirrorAccepts env (postgreSQLService w) k)))"
      if "db (databaseService w) = Some dc" for dc
      using that by (rule syncLoop_rows_only_after)
    show "\<exists>dc'. db (databaseService (syncLoop env ?un w)) = Some dc'
             \<and> rows dc' = map (\<lambda>r.
                  if \<exists>k<length ?un. id' (?un ! k) = id_db r
                       \<and> mirrorAccepts env (postgreSQLService w) k
                  then markSynced env r else r) (rows dc)"
      if "POSTGRESQL_ENABLED cfg \<and> user st \<noteq> None \<and> (\<forall>n. sqliteFails env n = None)"
        and "db (databaseService w) = Some dc" for dc
      using that(2) that(1) by (intro syncLoop_rows) auto
  qed
qed

text \<open>
  The second of three writes fails: the first and third rows are marked, the second is
  not, the fourth was marked before. With the mirror down, the local store is unchanged.
\<close>

theorem syncToCloud_marks_after_mirror_write_witness:
  "map (isSync \<circ> dbEntryToEntry) (rows (the (db (databaseService (snd (syncToCloud
       (CONFIG\<lparr>POSTGRESQL_ENABLED := True\<rparr>) secondWriteFails
       (sampleState sweepEntries connectedWallet)
       (sampleWorld sweepEntries connectedWallet)))))))
     = [True, False, True, True]
   \<and> databaseService (snd (syncToCloud (CONFIG\<lparr>POSTGRESQL_ENABLED := True\<rparr>) mirrorDown
       (sampleState sweepEntries connectedWallet)
       (sampleWorld sweepEntries connectedWallet)))
     = databaseService (sampleWorld sweepEntries connectedWallet)"
proof -
  let ?cfg = "CONFIG\<lparr>POSTGRESQL_ENABLED := True\<rparr>"
  let ?st = "sampleState sweepEntries connectedWallet"
  let ?w = "sampleWorld sweepEntries connectedWallet"
  let ?dc = "\<lparr> rows = map entryToRow sweepEntries, queries = 0 \<rparr> :: int Connection"
  have h: "POSTGRESQL_ENABLED ?cfg \<and> user ?st \<noteq> None
           \<and> (\<forall>n. sqliteFails secondWriteFails n = None)"
    by (simp add: sampleState_def secondWriteFails_def sampleEnv_def)
  have d: "db (databaseService ?w) = Some ?dc"
    by (simp add: sampleWorld_def)
  have un: "filter (\<lambda>e. \<not> isSync e) (entries ?st)
            = [entryAt ''a'' 5, entryAt ''b'' 6, entryAt ''c'' 7]"
    by (simp add: sampleState_def sweepEntries_def entryAt_def)
  have acc: "mirrorAccepts secondWriteFails (postgreSQLService ?w) k \<longleftrightarrow> k \<noteq> 1" for k
    by (simp add: mirrorAccepts_def sampleWorld_def secondWriteFails_def sampleEnv_def)
  from syncToCloud_marks_after_mirror_write [of ?cfg secondWriteFails ?st ?w] h d
  obtain dc' where
    "db (databaseService (snd (syncToCloud ?cfg secondWriteFails ?st ?w))) = Some dc'"
    and "rows dc' = map (\<lambda>r.
           if \<exists>k<length (filter (\<lambda>e. \<not> isSync e) (entries ?st)).
                id' (filter (\<lambda>e. \<not> isSync e) (entries ?st) ! k) = id_db r
                \<and> mirrorAccepts secondWriteFails (postgreSQLService ?w) k
           then markSynced secondWriteFails r else r) (rows ?dc)"
    by blast
  then have 1: "map (isSync \<circ> dbEntryToEntry) (rows (the (db (databaseService
                  (snd (syncToCloud ?cfg secondWriteFails ?st ?w))))))
                = [True, False, True, True]"
    unfolding un acc
    by (simp add: sweepEntries_def entryToRow_def entryAt_def markSynced_def Ex_less_Suc2
        numeral_3_eq_3 dbEntryToEntry_def)
  have "\<forall>k. \<not> mirrorAccepts mirrorDown (postgreSQLService ?w) k"
    by (simp add: mirrorAccepts_def mirrorDown_def sampleEnv_def split: option.split)
  with syncToCloud_marks_after_mirror_write [of ?cfg mirrorDown ?st ?w]
  have 2: "databaseService (snd (syncToCloud ?cfg mirrorDown ?st ?w)) = databaseService ?w"
    by blast
  from 1 2 show ?thesis ..
qed

section \<open>Properties of \<open>updateEntry\<close>\<close>

text \<open>
  \<open>updateEntry\<close> always fulfils; it touches neither wallet nor cluster, and the state
  records either the update or the failure.
\<close>

lemma updateEntryTry_frame:
  "walletService (snd (updateEntryTry cfg env i u w)) = walletService w"
  "chain (snd (updateEntryTry cfg env i u w)) = chain w"
  "state (snd (updateEntryTry cfg env i u w)) =
     (case fst (updateEntryTry cfg env i u w) of
        Inl err \<Rightarrow> state w
      | Inr x \<Rightarrow> appReducer (state w) (UPDATE_ENTRY i u))"
  by (auto simp: updateEntryTry_def dispatch_def Let_def split: prod.splits sum.splits)

lemma updateEntry_frame:
  "fst (updateEntry cfg env i u w) = Inr ()"
  "walletService (snd (updateEntry cfg env i u w)) = walletService w"
  "chain (snd (updateEntry cfg env i u w)) = chain w"
  "state (snd (updateEntry cfg env i u w)) =
     (case fst (updateEntryTry cfg env i u w) of
        Inl err \<Rightarrow> appReducer (state w) (SET_ERROR (Some ''Failed to update journal entry''))
      | Inr x \<Rightarrow> appReducer (state w) (UPDATE_ENTRY i u))"
proof -
  obtain r w' where t: "updateEntryTry cfg env i u w = (r, w')"
    by (cases "updateEntryTry cfg env i u w")
  from updateEntryTry_frame [of cfg env i u w] t
  have f: "walletService w' = walletService w" "chain w' = chain w"
    "state w' = (case r of Inl err \<Rightarrow> state w | Inr x \<Rightarrow> appReducer (state w) (UPDATE_ENTRY i u))"
    by simp_all
  show "fst (updateEntry cfg env i u w) = Inr ()"
    by (cases r) (simp_all add: updateEntry_def t)
  show "walletService (snd (updateEntry cfg env i u w)) = walletService w"
    using f by (cases r) (simp_all add: updateEntry_def t dispatch_def)
  show "chain (snd (updateEntry cfg env i u w)) = chain w"
    using f by (cases r) (simp_all add: updateEntry_def t dispatch_def)
  show "state (snd (updateEntry cfg env i u w)) =
     (case fst (updateEntryTry cfg env i u w) of
        Inl err \<Rightarrow> appReducer (state w) (SET_ERROR (Some ''Failed to update journal entry''))
      | Inr x \<Rightarrow> appReducer (state w) (UPDATE_ENTRY i u))"
    using f by (cases r) (simp_all add: updateEntry_def t dispatch_def)
qed

lemma updateEntry_fulfils: "updateEntry cfg env i u w = (r, w') \<Longrightarrow> r = Inr ()"
  using updateEntry_frame(1) [of cfg env i u w] by simp

lemmas upd_defs = updateEntry_def updateEntryTry_def updateEntryLocal_def updateEntryLocalTry_def
  updateJournalEntry_def runStatement_def dispatch_def spreadUpdates_def noUpdates_def
  sqliteSetClause_def

lemmas sample_defs = sampleWorld_def sampleState_def sampleEnv_def connectedWallet_def entryAt_def CONFIG_def
  entryToRow_def sampleUser_def syncedEntry_def

text \<open>
  C6 fails on the provider with both stores. A mirrored entry (\<open>isSync\<close> true) gets
  a new content and a new mood, with \<open>CONFIG\<close> as it is (SQLite on, PostgreSQL off):
  the local store is written, the update reaches the state, no error is recorded, and
  the entry is still \<open>isSync = true\<close> in the state and in the local store.
\<close>

theorem updateEntry_leaves_isSync:
  "map (\<lambda>e. (content e, mood e, isSync e))
     (entries (state (snd (updateEntry CONFIG sampleEnv ''e1''
        (noUpdates\<lparr>content_upd := Some (jsString ''A quiet evening walk''), mood_upd := Some calm\<rparr>)
        (sampleWorld [syncedEntry] connectedWallet)))))
     = [(jsString ''A quiet evening walk'', calm, True)]
   \<and> map ((\<lambda>e. (content e, mood e, isSync e)) \<circ> dbEntryToEntry)
     (rows (the (db (databaseService (snd (updateEntry CONFIG sampleEnv ''e1''
        (noUpdates\<lparr>content_upd := Some (jsString ''A quiet evening walk''), mood_upd := Some calm\<rparr>)
        (sampleWorld [syncedEntry] connectedWallet)))))))
     = [(jsString ''A quiet evening walk'', calm, True)]
   \<and> error (state (snd (updateEntry CONFIG sampleEnv ''e1''
        (noUpdates\<lparr>content_upd := Some (jsString ''A quiet evening walk''), mood_upd := Some calm\<rparr>)
        (sampleWorld [syncedEntry] connectedWallet)))) = None"
  by (simp add: upd_defs sample_defs dbEntryToEntry_def Let_def)

text \<open>
  The provider with the local store only resets the flag, by a second statement, when
  the update carries a content that is not empty or a mood, and both statements succeed.
\<close>

lemma updateEntryLocalTry_both_succeed:
  assumes "SQLITE_ENABLED cfg"
    and "updateJournalEntry env (databaseService w) i u = (Inr (), db1)"
    and "updateJournalEntry env db1 i (noUpdates\<lparr>isSync_upd := Some False\<rparr>) = (Inr (), db2)"
    and "(case content_upd u of Some v \<Rightarrow> v \<noteq> [] | None \<Rightarrow> False) \<or> mood_upd u \<noteq> None"
  shows "updateEntryLocalTry cfg env i u w =
           (Inr (), dispatch (UPDATE_ENTRY i (u\<lparr>isSync_upd := Some False\<rparr>))
                      (w\<lparr>databaseService := db2\<rparr>))"
  using assms by (simp add: updateEntryLocalTry_def Let_def)

lemma updateEntryLocal_marks_unsynced:
  assumes "SQLITE_ENABLED cfg" and "db (databaseService w) = Some dc"
    and "sqliteFails env (queries dc) = None" and "sqliteFails env (queries dc + 1) = None"
    and "(\<exists>v. content_upd u = Some v \<and> v \<noteq> []) \<or> mood_upd u \<noteq> None"
  shows "fst (updateEntryLocal cfg env i u w) = Inr ()
       \<and> entries (state (snd (updateEntryLocal cfg env i u w)))
           = map (\<lambda>e. if id' e = i then (spreadUpdates e u)\<lparr>isSync := False\<rparr> else e)
               (entries (state w))
       \<and> (\<exists>dc'. db (databaseService (snd (updateEntryLocal cfg env i u w))) = Some dc'
             \<and> (\<forall>r \<in> set (rows dc'). id_db r = i \<longrightarrow> is_sync r = 0))"
proof -
  define f where "f = (\<lambda>r. if id_db r = i then fold assign (sqliteSetClause env u) r else r)"
  define g where "g = (\<lambda>r. if id_db r = i
      then fold assign (sqliteSetClause env (noUpdates\<lparr>isSync_upd := Some False\<rparr>)) r else r)"
  define db1 where "db1 = (databaseService w)\<lparr>db := Some \<lparr> rows = map f (rows dc),
                                               queries = queries dc + 1 \<rparr>\<rparr>"
  define db2 where "db2 = db1\<lparr>db := Some \<lparr> rows = map g (map f (rows dc)),
                               queries = queries dc + 1 + 1 \<rparr>\<rparr>"
  have u1: "updateJournalEntry env (databaseService w) i u = (Inr (), db1)"
    using assms(2,3) by (simp add: updateJournalEntry_def runStatement_def db1_def f_def)
  have u2: "updateJournalEntry env db1 i (noUpdates\<lparr>isSync_upd := Some False\<rparr>)
              = (Inr (), db2)"
    using assms(4)
    by (simp add: updateJournalEntry_def runStatement_def db1_def db2_def g_def)
  have d2: "db db2 = Some \<lparr> rows = map g (map f (rows dc)), queries = queries dc + 1 + 1 \<rparr>"
    by (simp add: db2_def)
  have c: "(case content_upd u of Some v \<Rightarrow> v \<noteq> [] | None \<Rightarrow> False) \<or> mood_upd u \<noteq> None"
    using assms(5) by auto
  have t: "updateEntryLocalTry cfg env i u w =
             (Inr (), dispatch (UPDATE_ENTRY i (u\<lparr>isSync_upd := Some False\<rparr>))
                        (w\<lparr>databaseService := db2\<rparr>))"
    by (rule updateEntryLocalTry_both_succeed [OF assms(1) u1 u2 c])
  have s: "spreadUpdates e (u\<lparr>isSync_upd := Some False\<rparr>) = (spreadUpdates e u)\<lparr>isSync := False\<rparr>"
    for e
    by (simp add: spreadUpdates_def)
  have gs: "is_sync (g r) = 0" if "id_db r = i" for r
    using that by (simp add: g_def fold_sqliteSetClause noUpdates_def)
  have k: "id_db (f r) = id_db r" "id_db (g r) = id_db r" for r
    by (simp_all add: f_def g_def fold_sqliteSetClause)
  have "is_sync r = 0" if "r \<in> set (map g (map f (rows dc)))" "id_db r = i" for r
  proof -
    from that(1) obtain r0 where r: "r = g (f r0)" by auto
    with that(2) k have "id_db (f r0) = i" by simp
    from gs [OF this] r show ?thesis by simp
  qed
  then show ?thesis
    unfolding updateEntryLocal_def t
    by (simp add: dispatch_def s d2 del: map_map)
qed

text \<open>
  There an update whose content is the empty string is not followed by the second
  statement: the content changes and the flag stays.
\<close>

lemma updateEntryLocal_empty_content_leaves_isSync:
  "map (\<lambda>e. (content e, isSync e))
     (entries (state (snd (updateEntryLocal CONFIG sampleEnv ''e1''
        (noUpdates\<lparr>content_upd := Some []\<rparr>) (sampleWorld [syncedEntry] connectedWallet)))))
     = [([], True)]
   \<and> map ((\<lambda>e. (content e, isSync e)) \<circ> dbEntryToEntry)
     (rows (the (db (databaseService (snd (updateEntryLocal CONFIG sampleEnv ''e1''
        (noUpdates\<lparr>content_upd := Some []\<rparr>) (sampleWorld [syncedEntry] connectedWallet)))))))
     = [([], True)]"
  by (simp add: upd_defs sample_defs dbEntryToEntry_def Let_def)

section \<open>Validation and the write path\<close>

text \<open>What \<open>updateEntry\<close> writes to the local store when the stores accept it.\<close>

lemma updateEntry_rows:
  assumes "SQLITE_ENABLED cfg" and "storesAccept cfg env w"
    and "db (databaseService w) = Some dc"
  shows "db (databaseService (snd (updateEntry cfg env i u w))) =
           Some \<lparr> rows = map (\<lambda>r. if id_db r = i then fold assign (sqliteSetClause env u) r
                                    else r) (rows dc),
                  queries = queries dc + 1 \<rparr>"
  using assms
  by (auto simp: updateEntry_def updateEntryTry_def pg_updateJournalEntry_def
      updateJournalEntry_def runStatement_def storesAccept_def mirrorAccepts_def dispatch_def
      Let_def split: option.splits prod.splits sum.splits if_splits)

lemma snd_case_result:
  "snd (case p of (Inl err, w') \<Rightarrow> (a, w') | (Inr u, w') \<Rightarrow> (b, w')) = snd p"
  by (cases p; cases "fst p") auto

text \<open>
  C9, as the code has it. \<open>validateJournalEntry\<close> accepts a content string exactly
  when its length after trimming is at least 10 and its length before trimming is at
  most 5000; the error list is empty exactly when the string is accepted. Trimming never
  lengthens a string, so a string whose trimmed length is below 10 or above 5000 is
  rejected. The function is not on the write path. \<open>handleSave\<close>, with a mood
  selected, turns away a content whose trimmed length is below 10 and leaves the world
  as it was; every other content it passes on, trimmed, to \<open>updateEntry\<close> or
  \<open>createEntry\<close>, whatever its length; and \<open>updateEntry\<close>, when the stores accept
  its statements, writes that content to the rows of the entry.
\<close>

theorem validateJournalEntry_bounds_and_write_path:
  "isValid (validateJournalEntry c) = (10 \<le> length (trim c) \<and> length c \<le> 5000)
   \<and> (errors (validateJournalEntry c) = []) = isValid (validateJournalEntry c)
   \<and> length (trim c) \<le> length c
   \<and> (length (trim c) < 10 \<longrightarrow>
        handleSave cr up ex c (Some m) w = (''Write More'', w))
   \<and> (10 \<le> length (trim c) \<longrightarrow>
        handleSave cr up (Some e) c (Some m) w =
          (case up (id' e) (noUpdates\<lparr>content_upd := Some (trim c), mood_upd := Some m\<rparr>) w of
             (Inl err, w') \<Rightarrow> (''Save Failed'', w')
           | (Inr u, w') \<Rightarrow> (''Entry Updated'', w'))
        \<and> handleSave cr up None c (Some m) w =
          (case cr (trim c) m w of
             (Inl err, w') \<Rightarrow> (''Save Failed'', w')
           | (Inr entry, w') \<Rightarrow> (''Entry Saved'', w')))
   \<and> (10 \<le> length (trim c) \<and> SQLITE_ENABLED cfg \<and> storesAccept cfg env w
        \<and> db (databaseService w) = Some dc \<longrightarrow>
        (\<exists>dc'. db (databaseService
                   (snd (handleSave cr (updateEntry cfg env) (Some e) c (Some m) w))) = Some dc'
           \<and> rows dc' = map (\<lambda>r. if id_db r = id' e
                                   then r\<lparr>updated_at := clock env, content_db := trim c,
                                          mood_db := m\<rparr>
                                   else r) (rows dc)))"
proof (intro conjI impI)
  have e: "trim [] = []" by (simp add: trim_def)
  show "isValid (validateJournalEntry c) = (10 \<le> length (trim c) \<and> length c \<le> 5000)"
    by (auto simp: validateJournalEntry_def Let_def e)
  show "(errors (validateJournalEntry c) = []) = isValid (validateJournalEntry c)"
    by (auto simp: validateJournalEntry_def Let_def)
  show "length (trim c) \<le> length c"
    by (rule length_trim_le)
  show "handleSave cr up ex c (Some m) w = (''Write More'', w)" if "length (trim c) < 10"
    using that by (simp add: handleSave_def)
  show "handleSave cr up (Some e) c (Some m) w =
          (case up (id' e) (noUpdates\<lparr>content_upd := Some (trim c), mood_upd := Some m\<rparr>) w of
             (Inl err, w') \<Rightarrow> (''Save Failed'', w')
           | (Inr u, w') \<Rightarrow> (''Entry Updated'', w'))" if "10 \<le> length (trim c)"
    using that by (simp add: handleSave_def)
  show "handleSave cr up None c (Some m) w =
          (case cr (trim c) m w of
             (Inl err, w') \<Rightarrow> (''Save Failed'', w')
           | (Inr entry, w') \<Rightarrow> (''Entry Saved'', w'))" if "10 \<le> length (trim c)"
    using that by (simp add: handleSave_def)
  show "\<exists>dc'. db (databaseService
                   (snd (handleSave cr (updateEntry cfg env) (Some e) c (Some m) w))) = Some dc'
           \<and> rows dc' = map (\<lambda>r. if id_db r = id' e
                                   then r\<lparr>updated_at := clock env, content_db := trim c,
                                          mood_db := m\<rparr>
                                   else r) (rows dc)"
    if h: "10 \<le> length (trim c) \<and> SQLITE_ENABLED cfg \<and> storesAccept cfg env w
        \<and> db (databaseService w) = Some dc"
  proof -
    let ?u = "noUpdates\<lparr>content_upd := Some (trim c), mood_upd := Some m\<rparr>"
    from h have "snd (handleSave cr (updateEntry cfg env) (Some e) c (Some m) w)
                 = snd (updateEntry cfg env (id' e) ?u w)"
      by (simp add: handleSave_def snd_case_result)
    moreover from h
    have "db (databaseService (snd (updateEntry cfg env (id' e) ?u w))) =
           Some \<lparr> rows = map (\<lambda>r. if id_db r = id' e
                                    then fold assign (sqliteSetClause env ?u) r
                                    else r) (rows dc),
                  queries = queries dc + 1 \<rparr>"
      by (intro updateEntry_rows) simp_all
    ultimately show ?thesis
      by (simp add: fold_sqliteSetClause noUpdates_def)
  qed
qed

text \<open>
  The screen opened on a mirrored entry, a mood selected: four letters are turned away
  and the world is left as it was; 5001 letters are written to the row. The screen being
  opened on an entry, \<open>createEntry\<close> is not called: here it is a function that
  rejects, as \<open>createEntry\<close> does when no user is loaded.
\<close>

theorem validateJournalEntry_bounds_and_write_path_witness:
  "length (trim (replicate 4 0x61)) < 10
   \<and> handleSave (\<lambda>c m w. (Inl (Error ''No user found''), w)) (updateEntry CONFIG sampleEnv)
        (Some syncedEntry) (replicate 4 0x61) (Some calm)
        (sampleWorld [syncedEntry] connectedWallet)
       = (''Write More'', sampleWorld [syncedEntry] connectedWallet)
   \<and> 10 \<le> length (trim (replicate 5001 0x61))
   \<and> map content_db (rows (the (db (databaseService (snd (handleSave
        (\<lambda>c m w. (Inl (Error ''No user found''), w)) (updateEntry CONFIG sampleEnv)
        (Some syncedEntry) (replicate 5001 0x61) (Some calm)
        (sampleWorld [syncedEntry] connectedWallet)))))))
       = [replicate 5001 0x61]"
proof -
  let ?cr = "\<lambda>(c :: jsstring) (m :: MoodType) (w :: World).
               (Inl (Error ''No user found'') :: error + JournalEntry, w)"
  let ?w = "sampleWorld [syncedEntry] connectedWallet"
  let ?dc = "\<lparr> rows = map entryToRow [syncedEntry], queries = 0 \<rparr> :: int Connection"
  have t4: "trim (replicate 4 0x61) = replicate 4 0x61"
    using trim_padded [of "0x61" "0x20" 4 0] by (simp add: isWhiteSpace_def)
  have t5001: "trim (replicate 5001 0x61) = replicate 5001 0x61"
    using trim_padded [of "0x61" "0x20" 5001 0] by (simp add: isWhiteSpace_def)
  have short: "length (trim (replicate 4 0x61)) < 10"
    unfolding t4 by simp
  have long: "10 \<le> length (trim (replicate 5001 0x61))"
    unfolding t5001 by simp
  have h: "10 \<le> length (trim (replicate 5001 0x61)) \<and> SQLITE_ENABLED CONFIG
           \<and> storesAccept CONFIG sampleEnv ?w \<and> db (databaseService ?w) = Some ?dc"
    using long by (simp add: storesAccept_def sample_defs)
  from validateJournalEntry_bounds_and_write_path
    [where c = "replicate 4 0x61" and cr = ?cr and up = "updateEntry CONFIG sampleEnv"
      and ex = "Some syncedEntry" and m = calm and w = ?w] short
  have 1: "handleSave ?cr (updateEntry CONFIG sampleEnv) (Some syncedEntry)
             (replicate 4 0x61) (Some calm) ?w = (''Write More'', ?w)"
    by blast
  from validateJournalEntry_bounds_and_write_path
    [where c = "replicate 5001 0x61" and cr = ?cr and cfg = CONFIG and env = sampleEnv
      and e = syncedEntry and m = calm and w = ?w and dc = ?dc] h
  obtain dc' where "db (databaseService (snd (handleSave ?cr (updateEntry CONFIG sampleEnv)
        (Some syncedEntry) (replicate 5001 0x61) (Some calm) ?w))) = Some dc'"
    and "rows dc' = map (\<lambda>r. if id_db r = id' syncedEntry
                                then r\<lparr>updated_at := clock sampleEnv,
                                       content_db := trim (replicate 5001 0x61),
                                       mood_db := calm\<rparr>
                                else r) (rows ?dc)"
    by blast
  then have 2: "map content_db (rows (the (db (databaseService (snd (handleSave ?cr
        (updateEntry CONFIG sampleEnv) (Some syncedEntry) (replicate 5001 0x61) (Some calm)
        ?w)))))) = [replicate 5001 0x61]"
    unfolding t5001 by (simp add: syncedEntry_def entryAt_def entryToRow_def)
  from short 1 long 2 show ?thesis by (intro conjI)
qed

text \<open>
  C9, as stated, fails, twice. Ten letters \<open>a\<close> followed by 4991 spaces have trimmed
  length 10, within 10 to 5000, and \<open>validateJournalEntry\<close> rejects the string. And
  what it rejects is not kept from the store: 5001 letters \<open>a\<close> are rejected by
  \<open>validateJournalEntry\<close>, and \<open>updateEntry\<close>, called as \<open>handleSave\<close> calls it
  with that content, writes them to the row of the entry, in the provider with both
  stores and in the provider with the local store only.
\<close>

theorem validateJournalEntry_not_on_write_path_counterexample:
  "length (trim (replicate 10 0x61 @ replicate 4991 0x20)) = 10
   \<and> isValid (validateJournalEntry (replicate 10 0x61 @ replicate 4991 0x20)) = False
   \<and> isValid (validateJournalEntry (replicate 5001 0x61)) = False
   \<and> map content_db (rows (the (db (databaseService (snd (updateEntry CONFIG sampleEnv ''e1''
        (noUpdates\<lparr>content_upd := Some (replicate 5001 0x61), mood_upd := Some calm\<rparr>)
        (sampleWorld [syncedEntry] connectedWallet)))))))
       = [replicate 5001 0x61]
   \<and> map content_db (rows (the (db (databaseService (snd (updateEntryLocal CONFIG sampleEnv
        ''e1''
        (noUpdates\<lparr>content_upd := Some (replicate 5001 0x61), mood_upd := Some calm\<rparr>)
        (sampleWorld [syncedEntry] connectedWallet)))))))
       = [replicate 5001 0x61]"
proof -
  have t: "trim (replicate 10 0x61 @ replicate 4991 0x20) = replicate 10 0x61"
    by (rule trim_padded) (simp_all add: isWhiteSpace_def)
  have 1: "length (trim (replicate 10 0x61 @ replicate 4991 0x20)) = 10"
    unfolding t by simp
  have 2: "isValid (validateJournalEntry (replicate 10 0x61 @ replicate 4991 0x20)) = False"
    by (simp add: validateJournalEntry_def Let_def t)
  have 3: "isValid (validateJournalEntry (replicate 5001 0x61)) = False"
    by (simp add: validateJournalEntry_def Let_def)
  have 4: "map content_db (rows (the (db (databaseService (snd (updateEntry CONFIG sampleEnv
        ''e1'' (noUpdates\<lparr>content_upd := Some (replicate 5001 0x61), mood_upd := Some calm\<rparr>)
        (sampleWorld [syncedEntry] connectedWallet)))))))
       = [replicate 5001 0x61]"
    by (simp add: upd_defs sample_defs Let_def)
  have 5: "map content_db (rows (the (db (databaseService (snd (updateEntryLocal CONFIG
        sampleEnv ''e1''
        (noUpdates\<lparr>content_upd := Some (replicate 5001 0x61), mood_upd := Some calm\<rparr>)
        (sampleWorld [syncedEntry] connectedWallet)))))))
       = [replicate 5001 0x61]"
    by (simp add: upd_defs sample_defs Let_def)
  from 1 2 3 4 5 show ?thesis by (intro conjI)
qed

section \<open>Properties of \<open>mintEntryAsNFT\<close>\<close>







lemmas mint_defs = mintEntryAsNFT_def mintPrecheck_def mintResume_def mintTry_def
  mintJournalEntryAsNFT_def getWalletKeypair_def createSimpleNFT_def updateEntry_def
  updateEntryTry_def updateJournalEntry_def runStatement_def dispatch_def isConnected_def
  spreadUpdates_def noUpdates_def sqliteSetClause_def







text \<open>
  C3 fails where the local store fails. The token is minted, then the \<open>UPDATE\<close> of
  the local store fails: the call returns the mint address (it is not rejected), while
  the entry is unminted in the state and in the store, the state records
  \<open>Failed to update journal entry\<close>, and the cluster holds the token.
\<close>

theorem mintEntryAsNFT_store_failure_swallowed:
  "fst (mintEntryAsNFT CONFIG (sampleEnv\<lparr>sqliteFails := \<lambda>n. Some (Error ''disk I/O error'')\<rparr>)
          (sampleState [entryAt ''e1'' 5] connectedWallet)
          ''e1'' (sampleWorld [entryAt ''e1'' 5] connectedWallet)) = Inr ''key''
   \<and> entries (state (snd (mintEntryAsNFT CONFIG
          (sampleEnv\<lparr>sqliteFails := \<lambda>n. Some (Error ''disk I/O error'')\<rparr>)
          (sampleState [entryAt ''e1'' 5] connectedWallet)
          ''e1'' (sampleWorld [entryAt ''e1'' 5] connectedWallet)))) = [entryAt ''e1'' 5]
   \<and> map dbEntryToEntry (rows (the (db (databaseService (snd (mintEntryAsNFT CONFIG
          (sampleEnv\<lparr>sqliteFails := \<lambda>n. Some (Error ''disk I/O error'')\<rparr>)
          (sampleState [entryAt ''e1'' 5] connectedWallet)
          ''e1'' (sampleWorld [entryAt ''e1'' 5] connectedWallet)))))))
       = [entryAt ''e1'' 5]
   \<and> error (state (snd (mintEntryAsNFT CONFIG
          (sampleEnv\<lparr>sqliteFails := \<lambda>n. Some (Error ''disk I/O error'')\<rparr>)
          (sampleState [entryAt ''e1'' 5] connectedWallet)
          ''e1'' (sampleWorld [entryAt ''e1'' 5] connectedWallet))))
       = Some ''Failed to update journal entry''
   \<and> tokens (chain (snd (mintEntryAsNFT CONFIG
          (sampleEnv\<lparr>sqliteFails := \<lambda>n. Some (Error ''disk I/O error'')\<rparr>)
          (sampleState [entryAt ''e1'' 5] connectedWallet)
          ''e1'' (sampleWorld [entryAt ''e1'' 5] connectedWallet)))) = [(''key'', ''keyk'')]"
  by (simp add: mint_defs sample_defs dbEntryToEntry_def Let_def)

text \<open>
  Where the call is rejected (by a check or by the Solana service), the entries of the
  state and both stores are left as they were.
\<close>

lemma mintEntryAsNFT_rejected_frame:
  assumes "mintEntryAsNFT cfg env st entryId w = (Inl err, w')"
  shows "entries (state w') = entries (state w)
       \<and> databaseService w' = databaseService w
       \<and> postgreSQLService w' = postgreSQLService w"
proof (cases "mintPrecheck cfg (walletService w) st entryId")
  case (Inl e)
  with assms show ?thesis by (simp add: mintEntryAsNFT_def)
next
  case (Inr entry)
  with assms have res: "mintResume cfg env entryId entry w = (Inl err, w')"
    by (simp add: mintEntryAsNFT_def)
  obtain r c' where m: "mintJournalEntryAsNFT cfg env (walletService w) (chain w) entry = (r, c')"
    by (cases "mintJournalEntryAsNFT cfg env (walletService w) (chain w) entry")
  show ?thesis
  proof (cases r)
    case (Inl e)
    with res m show ?thesis
      by (auto simp: mintResume_def mintTry_def dispatch_def)
  next
    case (Inr nft)
    with res m show ?thesis
      by (auto simp: mintResume_def mintTry_def Let_def split: prod.splits sum.splits
          dest: updateEntry_fulfils)
  qed
qed

text \<open>A failure of the stores never rejects the call: once the token exists, the call
  returns its address.\<close>

lemma mintEntryAsNFT_returns_after_mint:
  assumes "mintPrecheck cfg (walletService w) st entryId = Inr entry"
    and "mintJournalEntryAsNFT cfg env (walletService w) (chain w) entry = (Inr res, c')"
  shows "fst (mintEntryAsNFT cfg env st entryId w) = Inr (nftAddress_res res)"
  using assms
  by (auto simp: mintEntryAsNFT_def mintResume_def mintTry_def Let_def
      split: prod.splits sum.splits dest: updateEntry_fulfils)

end
